theory Spec2Isabelle
  imports
    Main
    "HOL-Library.AList"
    "HOL-Library.Char_ord"
    "HOL-Library.List_Lexorder"
begin

section \<open>Go strings\<close>

text \<open>
  A Go \<^verbatim>\<open>string\<close> is a byte sequence, here a \<^typ>\<open>string\<close>. The functions of package
  \<^verbatim>\<open>strings\<close> that the promotion step and the registry syncer call are written out.
\<close>

text \<open>\<^verbatim>\<open>strings.HasPrefix(s, prefix)\<close>.\<close>

fun hasPrefix :: "string \<Rightarrow> string \<Rightarrow> bool" where
  "hasPrefix s [] = True"
| "hasPrefix [] (p # ps) = False"
| "hasPrefix (c # cs) (p # ps) = (c = p \<and> hasPrefix cs ps)"

text \<open>\<^verbatim>\<open>strings.Index(s, substr)\<close>: the first position of \<open>substr\<close>, \<open>None\<close> for Go's -1.\<close>

fun index :: "string \<Rightarrow> string \<Rightarrow> nat option" where
  "index [] substr = (if substr = [] then Some 0 else None)"
| "index (c # cs) substr =
     (if hasPrefix (c # cs) substr then Some 0 else map_option Suc (index cs substr))"

text \<open>\<^verbatim>\<open>strings.Contains(s, substr)\<close>.\<close>

definition contains :: "string \<Rightarrow> string \<Rightarrow> bool" where
  "contains s substr = (index s substr \<noteq> None)"

text \<open>
  \<^verbatim>\<open>strings.Split(s, sep)\<close> for a separator of one byte, which is how every call in the
  modelled files uses it (\<^verbatim>\<open>"/"\<close> and \<^verbatim>\<open>":"\<close>). The result always has at least one element.
\<close>

function split :: "string \<Rightarrow> char \<Rightarrow> string list" where
  "split s sep =
     takeWhile (\<lambda>c. c \<noteq> sep) s #
       (case dropWhile (\<lambda>c. c \<noteq> sep) s of [] \<Rightarrow> [] | _ # rest \<Rightarrow> split rest sep)"
  by pat_completeness auto
termination
proof (relation "measure (\<lambda>(s, sep). length s)")
  show "wf (measure (\<lambda>(s, sep). length s))" by simp
next
  fix s :: string and sep d ds
  assume "dropWhile (\<lambda>c. c \<noteq> sep) s = d # ds"
  then have "length (d # ds) \<le> length s"
    by (metis length_dropWhile_le)
  then show "((ds, sep), (s, sep)) \<in> measure (\<lambda>(s, sep). length s)" by simp
qed

declare split.simps [simp del]

text \<open>
  \<^verbatim>\<open>strings.Replace(s, old, new, 1)\<close>: the first occurrence of \<open>old\<close> is replaced; an empty
  \<open>old\<close> matches at position 0.
\<close>

definition replaceFirst :: "string \<Rightarrow> string \<Rightarrow> string \<Rightarrow> string" where
  "replaceFirst s old new =
     (case index s old of
        None \<Rightarrow> s
      | Some i \<Rightarrow> take i s @ new @ drop (i + length old) s)"

text \<open>\<^verbatim>\<open>strings.ReplaceAll(s, old, new)\<close> for a non-empty \<open>old\<close> (the syncer's use).\<close>

function replaceAll :: "string \<Rightarrow> string \<Rightarrow> string \<Rightarrow> string" where
  "replaceAll s old new =
     (if old = [] then s
      else case s of
        [] \<Rightarrow> []
      | c # cs \<Rightarrow>
          if hasPrefix s old then new @ replaceAll (drop (length old) s) old new
          else c # replaceAll cs old new)"
  by pat_completeness auto
termination
  by (relation "measure (\<lambda>(s, old, new). length s)") auto

declare replaceAll.simps [simp del]

text \<open>\<^verbatim>\<open>strings.Join(elems, sep)\<close>.\<close>

fun join :: "string list \<Rightarrow> string \<Rightarrow> string" where
  "join [] sep = []"
| "join [x] sep = x"
| "join (x # y # ys) sep = x @ sep @ join (y # ys) sep"

section \<open>The promotion step (pkg/steps/release/promote.go)\<close>

subsection \<open>Data\<close>

text \<open>
  \<^verbatim>\<open>api.PromotionConfiguration\<close>. The Go map \<^verbatim>\<open>AdditionalImages\<close> is an association list whose
  order is the order in which \<^verbatim>\<open>range\<close> visits it; a Go map has no repeated key.
\<close>

record PromotionConfiguration =
  Namespace :: string
  Name :: string
  Tag :: string
  NamePrefix :: string
  ExcludedImages :: "string list"
  AdditionalImages :: "(string \<times> string) list"
  Disabled :: bool

text \<open>\<^verbatim>\<open>api.ProjectDirectoryImageBuildStepConfiguration\<close>, the fields the step reads.\<close>

record ProjectDirectoryImageBuildStepConfiguration =
  To :: string
  Optional :: bool

text \<open>\<^verbatim>\<open>api.ReleaseBuildConfiguration\<close>; a nil \<^verbatim>\<open>*PromotionConfiguration\<close> is \<open>None\<close>.\<close>

record ReleaseBuildConfiguration =
  Images :: "ProjectDirectoryImageBuildStepConfiguration list"
  PromotionConfiguration :: "PromotionConfiguration option"

text \<open>\<^verbatim>\<open>api.ImageStreamTagReference\<close>.\<close>

record ImageStreamTagReference =
  ref_Namespace :: string
  ref_Name :: string
  ref_Tag :: string

subsection \<open>getPublicImageReference\<close>

definition getPublicImageReference :: "string \<Rightarrow> string \<Rightarrow> string" where
  "getPublicImageReference dockerImageReference publicDockerImageRepository =
     (if \<not> contains dockerImageReference '':5000'' then dockerImageReference
      else
        (case split publicDockerImageRepository CHR ''/'' of
           publicHost # _ # _ \<Rightarrow>
             (case split dockerImageReference CHR ''/'' of
                host # _ # _ \<Rightarrow> replaceFirst dockerImageReference host publicHost
              | _ \<Rightarrow> dockerImageReference)
         | _ \<Rightarrow> dockerImageReference))"

subsection \<open>toPromote and PromotedTags\<close>

text \<open>
  \<^verbatim>\<open>toPromote\<close> returns the Go map \<^verbatim>\<open>tagsByDst\<close> (or \<^verbatim>\<open>namesByDst\<close>) and the set \<^verbatim>\<open>names\<close>.
  A map is an association list: \<^const>\<open>AList.update\<close> is \<^verbatim>\<open>m[k] = v\<close>, \<^const>\<open>AList.delete\<close> is
  \<^verbatim>\<open>delete(m, k)\<close>, and \<^const>\<open>map_of\<close> reads it. A \<^verbatim>\<open>sets.String\<close> is a \<^typ>\<open>string set\<close>.
  The four loops of the source are the four folds, in the source's order.
\<close>

definition includeImages ::
  "string set \<Rightarrow> ProjectDirectoryImageBuildStepConfiguration \<Rightarrow>
   (string \<times> string) list \<times> string set \<Rightarrow> (string \<times> string) list \<times> string set" where
  "includeImages requiredImages img acc =
     (let tag = To img in
      if tag \<in> requiredImages \<or> \<not> Optional img
      then (AList.update tag tag (fst acc), insert tag (snd acc))
      else acc)"

definition excludeImage ::
  "string \<Rightarrow> (string \<times> string) list \<times> string set \<Rightarrow> (string \<times> string) list \<times> string set" where
  "excludeImage tag acc = (AList.delete tag (fst acc), snd acc - {tag})"

definition addImage ::
  "string \<times> string \<Rightarrow> (string \<times> string) list \<times> string set \<Rightarrow>
   (string \<times> string) list \<times> string set" where
  "addImage entry acc =
     (AList.update (fst entry) (snd entry) (fst acc), insert (fst entry) (snd acc))"

definition prefixName ::
  "string \<Rightarrow> string \<times> string \<Rightarrow> (string \<times> string) list \<times> string set \<Rightarrow>
   (string \<times> string) list \<times> string set" where
  "prefixName namePrefix entry acc =
     (let name = namePrefix @ fst entry in
      (AList.update name (snd entry) (fst acc), insert name (snd acc)))"

text \<open>The map and the set as they stand before the \<^verbatim>\<open>NamePrefix\<close> test (lines 333 to 348).\<close>

definition tagsBeforePrefix ::
  "PromotionConfiguration \<Rightarrow> ProjectDirectoryImageBuildStepConfiguration list \<Rightarrow> string set \<Rightarrow>
   (string \<times> string) list \<times> string set" where
  "tagsBeforePrefix config images requiredImages =
     fold addImage (AdditionalImages config)
       (fold excludeImage (ExcludedImages config)
         (fold (includeImages requiredImages) images ([], {})))"

definition toPromote ::
  "PromotionConfiguration \<Rightarrow> ProjectDirectoryImageBuildStepConfiguration list \<Rightarrow> string set \<Rightarrow>
   (string \<times> string) list \<times> string set" where
  "toPromote config images requiredImages =
     (if Disabled config then ([], {})
      else
        let acc = tagsBeforePrefix config images requiredImages in
        if NamePrefix config = [] then acc
        else fold (prefixName (NamePrefix config)) (fst acc) ([], {}))"

text \<open>
  \<^verbatim>\<open>PromotedTags\<close>: one reference per key of the tag map, appended in the order of
  iteration; Go's nil slice is the empty list.
\<close>

definition PromotedTags :: "ReleaseBuildConfiguration \<Rightarrow> ImageStreamTagReference list" where
  "PromotedTags configuration =
     (case PromotionConfiguration configuration of
        None \<Rightarrow> []
      | Some promotion \<Rightarrow>
          let tags = fst (toPromote promotion (Images configuration) {}) in
          map (\<lambda>(dst, src).
                 if Name promotion \<noteq> []
                 then \<lparr>ref_Namespace = Namespace promotion, ref_Name = Name promotion,
                       ref_Tag = dst\<rparr>
                 else \<lparr>ref_Namespace = Namespace promotion, ref_Name = dst,
                       ref_Tag = Tag promotion\<rparr>)
              tags)"


subsection \<open>getPromotionPod\<close>

text \<open>The parts of \<^verbatim>\<open>coreapi.Pod\<close> that \<^verbatim>\<open>getPromotionPod\<close> fills in.\<close>

datatype RestartPolicy = RestartPolicyAlways | RestartPolicyOnFailure | RestartPolicyNever

record VolumeMount =
  vm_Name :: string
  vm_MountPath :: string
  vm_ReadOnly :: bool

record Container =
  ctr_Name :: string
  ctr_Image :: string
  ctr_Command :: "string list"
  ctr_Args :: "string list"
  ctr_VolumeMounts :: "VolumeMount list"

text \<open>A volume whose source is a secret: \<^verbatim>\<open>VolumeSource.Secret.SecretName\<close>.\<close>

record Volume =
  vol_Name :: string
  vol_SecretName :: string

record Pod =
  pod_Name :: string
  pod_Namespace :: string
  pod_RestartPolicy :: RestartPolicy
  pod_Containers :: "Container list"
  pod_Volumes :: "Volume list"

text \<open>
  Modelled from the spec: the constant \<^verbatim>\<open>api.RegistryPushCredentialsCICentralSecretMountPath\<close>
  is declared in package \<^verbatim>\<open>api\<close>, which is not among the source files. The specification
  gives the registry configuration as \<^verbatim>\<open>/etc/push-secret/.dockerconfigjson\<close>, and the pod
  expected by \<^verbatim>\<open>TestGetPromotionPod\<close> has the same path.
\<close>

definition RegistryPushCredentialsCICentralSecretMountPath :: string where
  "RegistryPushCredentialsCICentralSecretMountPath = ''/etc/push-secret''"

text \<open>\<^verbatim>\<open>coreapi.DockerConfigJsonKey\<close> of the Kubernetes API.\<close>

definition DockerConfigJsonKey :: string where
  "DockerConfigJsonKey = ''.dockerconfigjson''"

text \<open>
  Modelled from the spec: \<^verbatim>\<open>api.DomainForService(api.ServiceRegistry)\<close> is declared in package
  \<^verbatim>\<open>api\<close>, which is not among the source files. Its value is the registry host of the
  specification's examples, which the tests of \<^verbatim>\<open>promote.go\<close> expect as well.
\<close>

definition DomainForService_ServiceRegistry :: string where
  "DomainForService_ServiceRegistry = ''registry.svc.ci.openshift.org''"

text \<open>\<^verbatim>\<open>filepath.Join\<close> of a directory and a file name that are both clean and not empty.\<close>

definition filepath_Join :: "string \<Rightarrow> string \<Rightarrow> string" where
  "filepath_Join dir file = dir @ ''/'' @ file"

text \<open>Reading a Go \<^verbatim>\<open>map[string]string\<close>: the empty string for a key that is absent.\<close>

definition mapIndex :: "(string \<times> string) list \<Rightarrow> string \<Rightarrow> string" where
  "mapIndex m k = (case map_of m k of Some v \<Rightarrow> v | None \<Rightarrow> [])"

text \<open>
  \<^verbatim>\<open>getPromotionPod\<close>. The mirror mapping is a Go map, given as the association list of its
  entries in the order in which \<^verbatim>\<open>range\<close> visits them; \<^verbatim>\<open>sort.Strings\<close> orders the keys
  bytewise, which is the order of \<^typ>\<open>string\<close>. The name of the push secret,
  \<^verbatim>\<open>api.RegistryPushCredentialsCICentralSecret\<close>, is declared outside the source files and is
  the first argument.
\<close>

definition getPromotionPod :: "string \<Rightarrow> (string \<times> string) list \<Rightarrow> string \<Rightarrow> Pod" where
  "getPromotionPod pushSecretName imageMirrorTarget namespace =
     (let keys = sort (map fst imageMirrorTarget);
          ocCommands =
            map (\<lambda>k. ''oc image mirror --registry-config=''
                       @ filepath_Join RegistryPushCredentialsCICentralSecretMountPath
                           DockerConfigJsonKey
                       @ '' '' @ k @ '' '' @ mapIndex imageMirrorTarget k) keys;
          command = [''/bin/sh'', ''-c''];
          args = [join ocCommands '' && '']
      in \<lparr>pod_Name = ''promotion'',
          pod_Namespace = namespace,
          pod_RestartPolicy = RestartPolicyNever,
          pod_Containers =
            [\<lparr>ctr_Name = ''promotion'',
              ctr_Image = DomainForService_ServiceRegistry @ ''/ocp/4.6:cli'',
              ctr_Command = command,
              ctr_Args = args,
              ctr_VolumeMounts =
                [\<lparr>vm_Name = ''push-secret'', vm_MountPath = ''/etc/push-secret'',
                  vm_ReadOnly = True\<rparr>]\<rparr>],
          pod_Volumes = [\<lparr>vol_Name = ''push-secret'', vol_SecretName = pushSecretName\<rparr>]\<rparr>)"

text \<open>
  The mirror command of the specification for a source \<open>src\<close> of the mapping \<open>m\<close>:
  \<^verbatim>\<open>oc image mirror --registry-config=/etc/push-secret/.dockerconfigjson <src> <dst>\<close>.
\<close>

definition mirrorCommand_spec :: "(string \<rightharpoonup> string) \<Rightarrow> string \<Rightarrow> string" where
  "mirrorCommand_spec m src =
     ''oc image mirror --registry-config=/etc/push-secret/.dockerconfigjson ''
       @ src @ '' '' @ the (m src)"

section \<open>Cluster objects, clients and their calls\<close>

text \<open>
  An instant (\<^verbatim>\<open>metav1.Time\<close>) is an integer offset from Go's zero \<^verbatim>\<open>Time\<close>, which is
  \<open>0\<close>; \<^verbatim>\<open>Before\<close> is \<open><\<close>.
\<close>

type_synonym time = int

text \<open>The fields of the OpenShift and Kubernetes objects that the modelled code reads or writes.\<close>

record ObjectReference =
  or_Kind :: string
  or_Namespace :: string
  or_Name :: string

record TagReference =
  tr_Name :: string
  tr_From :: "ObjectReference option"

record TagEvent =
  te_DockerImageReference :: string

record NamedTagEventList =
  ntel_Tag :: string
  ntel_Items :: "TagEvent list"

record ImageStream =
  is_Namespace :: string
  is_Name :: string
  is_Annotations :: "(string \<times> string) list"
  is_DeletionTimestamp :: "time option"
  is_Finalizers :: "string list"
  is_LookupPolicyLocal :: bool
  is_SpecTags :: "TagReference list"
  is_StatusTags :: "NamedTagEventList list"
  is_PublicDockerImageRepository :: string

record Image =
  img_Name :: string
  img_CreationTimestamp :: time
  img_DockerImageReference :: string

record ImageStreamTag =
  ist_Namespace :: string
  ist_Name :: string
  ist_Tag :: "TagReference option"
  ist_Image :: Image

record Secret =
  sec_Namespace :: string
  sec_Name :: string
  sec_Data :: "(string \<times> string) list"
  sec_Type :: string

text \<open>\<^verbatim>\<open>imagev1.ImageStreamImport\<close> with its one \<^verbatim>\<open>ImageImportSpec\<close>.\<close>

record ImageStreamImport =
  isi_Namespace :: string
  isi_Name :: string
  isi_Import :: bool
  isi_From :: ObjectReference
  isi_To :: string
  isi_ReferencePolicyLocal :: bool

text \<open>The zero value of \<^verbatim>\<open>imagev1.ImageStream\<close>.\<close>

definition emptyImageStream :: ImageStream where
  "emptyImageStream =
     \<lparr>is_Namespace = [], is_Name = [], is_Annotations = [], is_DeletionTimestamp = None,
      is_Finalizers = [], is_LookupPolicyLocal = False, is_SpecTags = [], is_StatusTags = [],
      is_PublicDockerImageRepository = []\<rparr>"

text \<open>
  A client (\<^verbatim>\<open>ctrlruntimeclient.Client\<close>) is named by the API server it talks to; a nil
  interface value is \<open>None\<close>. Every request a client sends is a \<open>call\<close>. The trace of a run
  is the list of the calls made so far, oldest first.
\<close>

type_synonym client = string

datatype call =
    GetImageStream client string string
  | GetImageStreamTag client string string
  | GetNamespace client string
  | CreateNamespace client string "(string \<times> string) list"
  | CreateImageStream client ImageStream
  | UpdateImageStream client ImageStream
  | UpdateImageStreamTag client ImageStreamTag
  | PatchImageStream client ImageStream
  | DeleteImageStream client ImageStream
  | CreateOrUpdateImageStream client ImageStream
  | CreateOrUpdateSecret client Secret
  | CreateImageStreamImport client ImageStreamImport
  | RunPod Pod

type_synonym trace = "call list"

text \<open>
  The errors of the API (\<^verbatim>\<open>apierrors.IsNotFound\<close>, \<^verbatim>\<open>IsAlreadyExists\<close>, \<^verbatim>\<open>IsConflict\<close>
  recognise the first three) and the answers to a call. The answer to an import carries
  \<^verbatim>\<open>Status.Images\<close>: \<open>None\<close> for a nil slice, and for each element whether its \<^verbatim>\<open>Image\<close>
  is set.
\<close>

datatype apiError = NotFound | AlreadyExists | Conflict | OtherError string

datatype response =
    Failed apiError
  | Succeeded
  | GotImageStream ImageStream
  | GotImageStreamTag ImageStreamTag
  | GotImportStatus "Image option list option"

text \<open>
  The clusters are the environment of the code: an answer is a function of the calls made
  so far and of the call, so that an answer may change from one attempt to the next.
\<close>

type_synonym env = "trace \<Rightarrow> call \<Rightarrow> response"

text \<open>
  An error value of the code: an error of the API, or \<^verbatim>\<open>fmt.Errorf\<close> with its message (up
  to the wrapped cause) and the cause it wraps with \<^verbatim>\<open>%w\<close>.
\<close>

datatype error = Api apiError | Errorf string "error option"

text \<open>A function returns, or the goroutine panics (a method called on a nil interface).\<close>

datatype 'a result = Returned 'a | Panicked

definition andThen ::
  "'a result \<times> trace \<Rightarrow> ('a \<Rightarrow> trace \<Rightarrow> 'b result \<times> trace) \<Rightarrow> 'b result \<times> trace" where
  "andThen m f = (case m of (Panicked, tr) \<Rightarrow> (Panicked, tr) | (Returned x, tr) \<Rightarrow> f x tr)"

text \<open>A method call on a client: a nil client panics, any other sends the call.\<close>

definition invoke :: "env \<Rightarrow> client option \<Rightarrow> (client \<Rightarrow> call) \<Rightarrow> trace \<Rightarrow> response result \<times> trace" where
  "invoke w c mk tr =
     (case c of
        None \<Rightarrow> (Panicked, tr)
      | Some cl \<Rightarrow> (Returned (w tr (mk cl)), tr @ [mk cl]))"

definition errorOf :: "response \<Rightarrow> apiError option" where
  "errorOf r = (case r of Failed e \<Rightarrow> Some e | _ \<Rightarrow> None)"

text \<open>The object a \<^verbatim>\<open>Get\<close> wrote into the stream passed to it: untouched unless it succeeded.\<close>

definition imageStreamOf :: "response \<Rightarrow> ImageStream" where
  "imageStreamOf r = (case r of GotImageStream i \<Rightarrow> i | _ \<Rightarrow> emptyImageStream)"

section \<open>The promotion step: run\<close>

text \<open>
  \<^verbatim>\<open>promotionStep\<close>. The pod and event clients only reach \<^verbatim>\<open>steps.RunPod\<close>, which is the
  call \<^const>\<open>RunPod\<close>; of the job specification the step reads the namespace.
\<close>

record promotionStep =
  config :: PromotionConfiguration
  images :: "ProjectDirectoryImageBuildStepConfiguration list"
  requiredImages :: "string set"
  srcClient :: "client option"
  dstClient :: "client option"
  jobSpec_Namespace :: string
  pushSecret :: "Secret option"
  imageCreatorClient :: "client option"

text \<open>
  Modelled from the spec: \<^verbatim>\<open>api.PipelineImageStream\<close> is declared in package \<^verbatim>\<open>api\<close>, which
  is not among the source files; the specification names the stream \<^verbatim>\<open>pipeline\<close>.
\<close>

definition PipelineImageStream :: string where
  "PipelineImageStream = ''pipeline''"

fun findStatusItems :: "NamedTagEventList list \<Rightarrow> string \<Rightarrow> string" where
  "findStatusItems [] tag = []"
| "findStatusItems (t # ts) tag =
     (if ntel_Tag t \<noteq> tag then findStatusItems ts tag
      else case ntel_Items t of [] \<Rightarrow> [] | item # _ \<Rightarrow> te_DockerImageReference item)"

definition findDockerImageReference :: "ImageStream \<Rightarrow> string \<Rightarrow> string" where
  "findDockerImageReference is tag = findStatusItems (is_StatusTags is) tag"

text \<open>\<^verbatim>\<open>createIfNotFound\<close>; its error is only logged by the caller.\<close>

definition createIfNotFound ::
  "env \<Rightarrow> client option \<Rightarrow> string \<Rightarrow> string \<Rightarrow> trace \<Rightarrow> error option result \<times> trace" where
  "createIfNotFound w cl namespace name tr =
     andThen (invoke w cl (\<lambda>c. GetImageStream c namespace name) tr)
       (\<lambda>got tr.
          if errorOf got = Some NotFound
          then andThen
                 (invoke w cl
                   (\<lambda>c. CreateImageStream c
                          (emptyImageStream\<lparr>is_Namespace := namespace, is_Name := name\<rparr>)) tr)
                 (\<lambda>created tr.
                    case errorOf created of
                      Some e \<Rightarrow>
                        (Returned (Some (Errorf ''could not create target imagestream''
                                          (Some (Api e)))), tr)
                    | None \<Rightarrow> (Returned (Some (Api NotFound)), tr))
          else (Returned (map_option Api (errorOf got)), tr))"

text \<open>
  The destination and the image stream to ensure for one entry of the tag map: the
  branch \<^verbatim>\<open>len(config.Name) > 0\<close> of \<^verbatim>\<open>getImageMirrorTarget\<close> and its \<^verbatim>\<open>else\<close> branch.
\<close>

definition mirrorDestination :: "PromotionConfiguration \<Rightarrow> string \<Rightarrow> string \<times> string" where
  "mirrorDestination cfg dst =
     (if Name cfg \<noteq> []
      then (DomainForService_ServiceRegistry @ ''/'' @ Namespace cfg @ ''/'' @ Name cfg
              @ '':'' @ dst, Name cfg)
      else (DomainForService_ServiceRegistry @ ''/'' @ Namespace cfg @ ''/'' @ dst
              @ '':'' @ Tag cfg, dst))"

text \<open>The loop over the tag map, in the order \<^verbatim>\<open>range\<close> visits it.\<close>

fun mirrorLoop ::
  "env \<Rightarrow> client option \<Rightarrow> PromotionConfiguration \<Rightarrow> ImageStream \<Rightarrow>
   (string \<times> string) list \<Rightarrow> (string \<times> string) list \<Rightarrow> trace \<Rightarrow>
   (string \<times> string) list result \<times> trace" where
  "mirrorLoop w cl cfg pipeline [] imageMirror tr = (Returned imageMirror, tr)"
| "mirrorLoop w cl cfg pipeline ((dst, src) # tags) imageMirror tr =
     (let dockerImageReference = findDockerImageReference pipeline src in
      if dockerImageReference = [] then mirrorLoop w cl cfg pipeline tags imageMirror tr
      else
        let public = getPublicImageReference dockerImageReference
                       (is_PublicDockerImageRepository pipeline);
            target = mirrorDestination cfg dst
        in andThen (createIfNotFound w cl (Namespace cfg) (snd target) tr)
             (\<lambda>logged tr.
                mirrorLoop w cl cfg pipeline tags
                  (AList.update public (fst target) imageMirror) tr))"

text \<open>\<^verbatim>\<open>getImageMirrorTarget\<close>; a nil pipeline is \<open>None\<close>, and Go's nil map is the empty list.\<close>

definition getImageMirrorTarget ::
  "env \<Rightarrow> client option \<Rightarrow> PromotionConfiguration \<Rightarrow> (string \<times> string) list \<Rightarrow>
   ImageStream option \<Rightarrow> trace \<Rightarrow> (string \<times> string) list result \<times> trace" where
  "getImageMirrorTarget w cl cfg tags pipeline tr =
     (case pipeline of
        None \<Rightarrow> (Returned [], tr)
      | Some p \<Rightarrow> mirrorLoop w cl cfg p tags [] tr)"

text \<open>
  \<^verbatim>\<open>retry.RetryOnConflict(backoff, fn)\<close> of client-go: \<open>fn\<close> runs until it succeeds, fails
  with an error that is not a conflict, or has run \<^verbatim>\<open>backoff.Steps\<close> times, when the last
  conflict is returned. Only an error of the API itself is recognised as a conflict.
\<close>

definition isConflict :: "error \<Rightarrow> bool" where
  "isConflict e = (e = Api Conflict)"

fun retryOnConflict ::
  "nat \<Rightarrow> (trace \<Rightarrow> error option result \<times> trace) \<Rightarrow> trace \<Rightarrow> error option result \<times> trace" where
  "retryOnConflict 0 fn tr = (Returned None, tr)"
| "retryOnConflict (Suc steps) fn tr =
     andThen (fn tr)
       (\<lambda>err tr.
          case err of
            None \<Rightarrow> (Returned None, tr)
          | Some e \<Rightarrow>
              if isConflict e \<and> steps \<noteq> 0 then retryOnConflict steps fn tr
              else (Returned (Some e), tr))"

text \<open>\<^verbatim>\<open>promotionRetry.Steps\<close>.\<close>

definition promotionRetry_Steps :: nat where
  "promotionRetry_Steps = 20"

text \<open>
  Lines 85 to 110 of \<^verbatim>\<open>run\<close>: the branch taken when a push secret is present.
\<close>

definition runWithPushSecret ::
  "env \<Rightarrow> string \<Rightarrow> promotionStep \<Rightarrow> (string \<times> string) list \<Rightarrow> ImageStream \<Rightarrow> trace \<Rightarrow>
   error option result \<times> trace" where
  "runWithPushSecret w pushSecretName s tags pipeline tr =
     (if imageCreatorClient s \<noteq> None
      then (Returned (Some (Errorf ''image-creator client is nil'' None)), tr)
      else
        andThen
          (andThen
            (invoke w (imageCreatorClient s) (\<lambda>c. GetNamespace c (Namespace (config s))) tr)
            (\<lambda>got tr.
               case errorOf got of
                 None \<Rightarrow> (Returned None, tr)
               | Some e \<Rightarrow>
                   if e \<noteq> NotFound
                   then (Returned (Some (Errorf (''failed to check if namespace ''
                            @ Namespace (config s) @ '' exists'') (Some (Api e)))), tr)
                   else andThen
                          (invoke w (imageCreatorClient s)
                            (\<lambda>c. CreateNamespace c (Namespace (config s)) []) tr)
                          (\<lambda>created tr.
                             case errorOf created of
                               None \<Rightarrow> (Returned None, tr)
                             | Some e' \<Rightarrow>
                                 if e' \<noteq> AlreadyExists
                                 then (Returned (Some (Errorf (''failed to create namespace ''
                                          @ Namespace (config s)) (Some (Api e')))), tr)
                                 else (Returned None, tr))))
          (\<lambda>err tr.
             case err of
               Some e \<Rightarrow> (Returned (Some e), tr)
             | None \<Rightarrow>
                 andThen
                   (getImageMirrorTarget w (imageCreatorClient s) (config s) tags
                      (Some pipeline) tr)
                   (\<lambda>imageMirrorTarget tr.
                      if imageMirrorTarget = [] then (Returned None, tr)
                      else
                        let pod = getPromotionPod pushSecretName imageMirrorTarget
                                    (jobSpec_Namespace s)
                        in case errorOf (w tr (RunPod pod)) of
                             Some e \<Rightarrow>
                               (Returned (Some (Errorf ''unable to run promotion pod''
                                                 (Some (Api e)))), tr @ [RunPod pod])
                           | None \<Rightarrow> (Returned None, tr @ [RunPod pod]))))"

text \<open>
  Lines 112 to 141: promotion into the one image stream \<^verbatim>\<open>config.Name\<close>. The function
  \<^verbatim>\<open>utils.FindStatusTag\<close> is declared outside the source files and is the argument
  \<open>FindStatusTag\<close>.
\<close>

definition promoteByName ::
  "env \<Rightarrow> (ImageStream \<Rightarrow> string \<Rightarrow> ObjectReference option) \<Rightarrow> promotionStep \<Rightarrow>
   (string \<times> string) list \<Rightarrow> ImageStream \<Rightarrow> trace \<Rightarrow> error option result \<times> trace" where
  "promoteByName w FindStatusTag s tags pipeline tr =
     andThen
       (invoke w (dstClient s)
          (\<lambda>c. GetImageStream c (Namespace (config s)) (Name (config s))) tr)
       (\<lambda>got tr.
          andThen
            (if errorOf got = Some NotFound
             then
               let is = (imageStreamOf got)
                          \<lparr>is_Namespace := Namespace (config s), is_Name := Name (config s)\<rparr>
               in andThen (invoke w (dstClient s) (\<lambda>c. CreateImageStream c is) tr)
                    (\<lambda>created tr.
                       case errorOf created of
                         Some e \<Rightarrow>
                           (Returned (Inl (Errorf ''could not retrieve target imagestream''
                                            (Some (Api e)))), tr)
                       | None \<Rightarrow> (Returned (Inr is), tr))
             else (Returned (Inr (imageStreamOf got)), tr))
            (\<lambda>ensured tr.
               case ensured of
                 Inl e \<Rightarrow> (Returned (Some e), tr)
               | Inr is \<Rightarrow>
                   let is' = fold (\<lambda>(dst, src) is.
                                case FindStatusTag pipeline src of
                                  Some valid \<Rightarrow>
                                    is\<lparr>is_SpecTags := is_SpecTags is
                                         @ [\<lparr>tr_Name = dst, tr_From = Some valid\<rparr>]\<rparr>
                                | None \<Rightarrow> is) tags is
                   in andThen (invoke w (dstClient s) (\<lambda>c. UpdateImageStream c is') tr)
                        (\<lambda>updated tr.
                           case errorOf updated of
                             None \<Rightarrow> (Returned None, tr)
                           | Some e \<Rightarrow>
                               if e = Conflict then (Returned (Some (Api e)), tr)
                               else (Returned (Some (Errorf ''could not promote image streams''
                                                      (Some (Api e)))), tr))))"

text \<open>Lines 149 to 185: the function retried for one destination \<open>dst\<close>.\<close>

definition promoteOneTag ::
  "env \<Rightarrow> promotionStep \<Rightarrow> string \<Rightarrow> ObjectReference \<Rightarrow> trace \<Rightarrow>
   error option result \<times> trace" where
  "promoteOneTag w s dst valid tr =
     andThen
       (invoke w (dstClient s) (\<lambda>c. GetImageStream c (Namespace (config s)) dst) tr)
       (\<lambda>got tr.
          andThen
            (if errorOf got = Some NotFound
             then andThen
                    (invoke w (dstClient s)
                       (\<lambda>c. CreateImageStream c
                              (emptyImageStream\<lparr>is_Namespace := Namespace (config s),
                                 is_Name := dst, is_LookupPolicyLocal := True\<rparr>)) tr)
                    (\<lambda>created tr. (Returned (errorOf created), tr))
             else (Returned (errorOf got), tr))
            (\<lambda>err tr.
               case err of
                 Some e \<Rightarrow>
                   (Returned (Some (Errorf ''could not ensure target imagestream''
                                     (Some (Api e)))), tr)
               | None \<Rightarrow>
                   let ist = \<lparr>ist_Namespace = Namespace (config s),
                              ist_Name = dst @ '':'' @ Tag (config s),
                              ist_Tag = Some \<lparr>tr_Name = Tag (config s), tr_From = Some valid\<rparr>,
                              ist_Image = \<lparr>img_Name = [], img_CreationTimestamp = 0,
                                           img_DockerImageReference = []\<rparr>\<rparr>
                   in andThen (invoke w (dstClient s) (\<lambda>c. UpdateImageStreamTag c ist) tr)
                        (\<lambda>updated tr.
                           case errorOf updated of
                             None \<Rightarrow> (Returned None, tr)
                           | Some e \<Rightarrow>
                               if e = Conflict then (Returned (Some (Api e)), tr)
                               else (Returned (Some (Errorf (''could not promote imagestreamtag ''
                                                      @ dst) (Some (Api e)))), tr))))"

text \<open>Lines 143 to 190: the loop over the tag map when \<^verbatim>\<open>config.Name\<close> is empty.\<close>

fun promoteByTag ::
  "env \<Rightarrow> (ImageStream \<Rightarrow> string \<Rightarrow> ObjectReference option) \<Rightarrow> promotionStep \<Rightarrow>
   ImageStream \<Rightarrow> (string \<times> string) list \<Rightarrow> trace \<Rightarrow> error option result \<times> trace" where
  "promoteByTag w FindStatusTag s pipeline [] tr = (Returned None, tr)"
| "promoteByTag w FindStatusTag s pipeline ((dst, src) # tags) tr =
     (case FindStatusTag pipeline src of
        None \<Rightarrow> promoteByTag w FindStatusTag s pipeline tags tr
      | Some valid \<Rightarrow>
          andThen (retryOnConflict promotionRetry_Steps (promoteOneTag w s dst valid) tr)
            (\<lambda>err tr.
               case err of
                 Some e \<Rightarrow> (Returned (Some e), tr)
               | None \<Rightarrow> promoteByTag w FindStatusTag s pipeline tags tr))"

text \<open>
  \<^verbatim>\<open>run\<close>. The name of the push secret and \<^verbatim>\<open>utils.FindStatusTag\<close> are arguments, as
  above; logging is left out.
\<close>

definition run ::
  "env \<Rightarrow> (ImageStream \<Rightarrow> string \<Rightarrow> ObjectReference option) \<Rightarrow> string \<Rightarrow> promotionStep \<Rightarrow>
   trace \<Rightarrow> error option result \<times> trace" where
  "run w FindStatusTag pushSecretName s tr =
     (let promoted = toPromote (config s) (images s) (requiredImages s);
          tags = fst promoted;
          names = snd promoted
      in if names = {} then (Returned None, tr)
         else
           andThen
             (invoke w (srcClient s)
                (\<lambda>c. GetImageStream c (jobSpec_Namespace s) PipelineImageStream) tr)
             (\<lambda>got tr.
                case errorOf got of
                  Some e \<Rightarrow>
                    (Returned (Some (Errorf ''could not resolve pipeline imagestream''
                                      (Some (Api e)))), tr)
                | None \<Rightarrow>
                    let pipeline = imageStreamOf got in
                    if pushSecret s \<noteq> None
                    then runWithPushSecret w pushSecretName s tags pipeline tr
                    else if Name (config s) \<noteq> []
                    then retryOnConflict promotionRetry_Steps
                           (promoteByName w FindStatusTag s tags pipeline) tr
                    else promoteByTag w FindStatusTag s pipeline tags tr))"

subsection \<open>A concrete promotion step\<close>

text \<open>
  A cluster that answers every \<^verbatim>\<open>Get\<close> of an image stream with a stream that has no
  status tags, and accepts every other call; and a step with a push secret that promotes the
  one image \<open>foo\<close>, its image-creator client being the argument.
\<close>

definition emptyPipelineWorld :: env where
  "emptyPipelineWorld tr c =
     (case c of
        GetImageStream cl ns name \<Rightarrow>
          GotImageStream (emptyImageStream\<lparr>is_Namespace := ns, is_Name := name\<rparr>)
      | _ \<Rightarrow> Succeeded)"

definition pushSecretStep :: "client option \<Rightarrow> promotionStep" where
  "pushSecretStep creator =
     \<lparr>config = \<lparr>Namespace = ''ocp'', Name = ''4.6'', Tag = [], NamePrefix = [],
                 ExcludedImages = [], AdditionalImages = [], Disabled = False\<rparr>,
      images = [\<lparr>To = ''foo'', Optional = False\<rparr>],
      requiredImages = {},
      srcClient = Some ''build'',
      dstClient = Some ''build'',
      jobSpec_Namespace = ''ci-op-1'',
      pushSecret = Some \<lparr>sec_Namespace = ''ci-op-1'', sec_Name = ''push'', sec_Data = [],
                         sec_Type = []\<rparr>,
      imageCreatorClient = creator\<rparr>"

section \<open>The registry syncer (pkg/controller/registrysyncer/registrysyncer.go)\<close>

subsection \<open>Data\<close>

text \<open>
  The reconciler: its clients by cluster name, a Go map without repeated keys, and the
  read-only flag; the pull secret getter yields the bytes of the pull secret. The
  filters only serve the event handler, and the sharded lock serialises the reconciles of
  one image stream: a single reconcile, as modelled here, runs while holding its lock.
\<close>

record reconciler =
  registryClients :: "(string \<times> client) list"
  pullSecretGetter :: string
  readOnly :: bool

text \<open>\<^verbatim>\<open>reconcile.Request\<close>: a namespace and the name \<^verbatim>\<open>stream:tag\<close>.\<close>

record request =
  req_Namespace :: string
  req_Name :: string

text \<open>
  The constants \<^verbatim>\<open>api.ServiceDomainAPICIRegistry\<close> and \<^verbatim>\<open>api.ServiceDomainAPPCIRegistry\<close> are
  declared outside the source files and are taken as parameters.
\<close>

record apiConstants =
  ServiceDomainAPICIRegistry :: string
  ServiceDomainAPPCIRegistry :: string

text \<open>
  What the Go runtime decides during one reconcile: the order in which each \<^verbatim>\<open>range\<close>
  over a map visits the keys (a list of cluster names; every key of the map once, for
  an order the runtime can choose), and the number of polls that fit into the deadline of
  \<^verbatim>\<open>wait.Poll\<close>.
\<close>

record schedule =
  gatherOrder :: "string list"
  newestOrder :: "string list"
  finalizeOrder :: "string list"
  syncOrder :: "string list"
  pollAttempts :: nat

text \<open>The entries of the map \<open>m\<close> in the order \<open>order\<close> of their keys.\<close>

definition rangeOver :: "string list \<Rightarrow> (string \<times> 'v) list \<Rightarrow> (string \<times> 'v) list" where
  "rangeOver order m = List.map_filter (\<lambda>k. map_option (Pair k) (map_of m k)) order"

definition validOrder :: "string list \<Rightarrow> (string \<times> 'v) list \<Rightarrow> bool" where
  "validOrder order m = (distinct order \<and> set order = fst ` set m)"

definition ControllerName :: string where
  "ControllerName = ''registry_syncer''"

definition annotationDPTPRequester :: string where
  "annotationDPTPRequester = ''dptp.openshift.io/requester''"

definition finalizerName :: string where
  "finalizerName = ''dptp.openshift.io/registry-syncer''"

definition pullSecretName :: string where
  "pullSecretName = ''registry-cluster-pull-secret''"

definition releaseConfigAnnotationPrefix :: string where
  "releaseConfigAnnotationPrefix = ''release.openshift.io''"

text \<open>The zero value of \<^verbatim>\<open>imagev1.ImageStreamTag\<close>, and the tag a \<^verbatim>\<open>Get\<close> wrote.\<close>

definition emptyImageStreamTag :: ImageStreamTag where
  "emptyImageStreamTag =
     \<lparr>ist_Namespace = [], ist_Name = [], ist_Tag = None,
      ist_Image = \<lparr>img_Name = [], img_CreationTimestamp = 0, img_DockerImageReference = []\<rparr>\<rparr>"

definition imageStreamTagOf :: "response \<Rightarrow> ImageStreamTag" where
  "imageStreamTagOf r = (case r of GotImageStreamTag t \<Rightarrow> t | _ \<Rightarrow> emptyImageStreamTag)"

subsection \<open>findNewest and the helpers of reconcile\<close>

text \<open>The creation time of the image of a tag, \<^verbatim>\<open>isTag.Image.CreationTimestamp\<close>.\<close>

definition created :: "ImageStreamTag \<Rightarrow> time" where
  "created isTag = img_CreationTimestamp (ist_Image isTag)"

text \<open>
  \<^verbatim>\<open>findNewest\<close>, over the entries of \<^verbatim>\<open>isTags\<close> in the order of iteration. The state of
  the loop is the running maximum \<open>t\<close>, which starts as the zero \<^verbatim>\<open>Time\<close>, and the result;
  \<open>newer\<close> is the body of the loop.
\<close>

definition newer :: "string \<times> ImageStreamTag \<Rightarrow> time \<times> string \<Rightarrow> time \<times> string" where
  "newer entry state =
     (if fst state < created (snd entry) then (created (snd entry), fst entry) else state)"

definition findNewest :: "(string \<times> ImageStreamTag) list \<Rightarrow> string" where
  "findNewest isTags = snd (fold newer isTags (0, []))"

definition dockerImageImportedFromTargetingCluster ::
  "apiConstants \<Rightarrow> string \<Rightarrow> ImageStreamTag option \<Rightarrow> bool" where
  "dockerImageImportedFromTargetingCluster api cluster tag =
     (case tag of
        None \<Rightarrow> False
      | Some t \<Rightarrow>
          (case ist_Tag t of
             None \<Rightarrow> False
           | Some tagRef \<Rightarrow>
               (case tr_From tagRef of
                  None \<Rightarrow> False
                | Some from \<Rightarrow>
                    if or_Kind from \<noteq> ''DockerImage'' then False
                    else hasPrefix (or_Name from) (ServiceDomainAPICIRegistry api)
                           \<and> cluster = ''api.ci''
                         \<or> hasPrefix (or_Name from) (ServiceDomainAPPCIRegistry api)
                           \<and> cluster = ''app.ci'')))"

definition domainForClusterName :: "apiConstants \<Rightarrow> string \<Rightarrow> error + string" where
  "domainForClusterName api ClusterName =
     (if ClusterName = ''api.ci'' then Inr DomainForService_ServiceRegistry
      else if ClusterName = ''app.ci'' then Inr (ServiceDomainAPPCIRegistry api)
      else Inl (Errorf (''failed to get the domain for cluster '' @ ClusterName) None))"

definition publicDomainForImage :: "apiConstants \<Rightarrow> string \<Rightarrow> string \<Rightarrow> error + string" where
  "publicDomainForImage api clusterName potentiallyPrivate =
     (case domainForClusterName api clusterName of
        Inl err \<Rightarrow> Inl err
      | Inr d \<Rightarrow>
          let svcDomainAndPort =
                (if clusterName = ''api.ci'' then ''docker-registry.default.svc:5000''
                 else ''image-registry.openshift-image-registry.svc:5000'')
          in Inr (replaceAll potentiallyPrivate svcDomainAndPort d))"

text \<open>
  \<^verbatim>\<open>ensureFinalizer\<close> and \<^verbatim>\<open>ensureRemoveFinalizer\<close>. \<^verbatim>\<open>sets.String.List\<close> is sorted and
  without repetition.
\<close>

definition ensureFinalizer ::
  "env \<Rightarrow> ImageStream \<Rightarrow> client option \<Rightarrow> trace \<Rightarrow> error option result \<times> trace" where
  "ensureFinalizer w stream cl tr =
     (if finalizerName \<in> set (is_Finalizers stream) then (Returned None, tr)
      else andThen
             (invoke w cl
                (\<lambda>c. PatchImageStream c
                       (stream\<lparr>is_Finalizers := is_Finalizers stream @ [finalizerName]\<rparr>)) tr)
             (\<lambda>patched tr. (Returned (map_option Api (errorOf patched)), tr)))"

definition ensureRemoveFinalizer ::
  "env \<Rightarrow> ImageStream \<Rightarrow> client option \<Rightarrow> trace \<Rightarrow> error option result \<times> trace" where
  "ensureRemoveFinalizer w stream cl tr =
     (if finalizerName \<notin> set (is_Finalizers stream) then (Returned None, tr)
      else andThen
             (invoke w cl
                (\<lambda>c. PatchImageStream c
                       (stream\<lparr>is_Finalizers :=
                          sort (remdups (removeAll finalizerName (is_Finalizers stream)))\<rparr>)) tr)
             (\<lambda>patched tr. (Returned (map_option Api (errorOf patched)), tr)))"

text \<open>The loop of \<^verbatim>\<open>finalizeIfNeeded\<close> over the clients.\<close>

fun finalizeLoop ::
  "env \<Rightarrow> ImageStream \<Rightarrow> string \<Rightarrow> (string \<times> client) list \<Rightarrow> trace \<Rightarrow>
   error option result \<times> trace" where
  "finalizeLoop w stream srcClusterName [] tr = (Returned None, tr)"
| "finalizeLoop w stream srcClusterName ((clusterName, cl) # clients) tr =
     (if clusterName = srcClusterName then finalizeLoop w stream srcClusterName clients tr
      else
        andThen
          (invoke w (Some cl)
             (\<lambda>c. GetImageStream c (is_Namespace stream) (is_Name stream)) tr)
          (\<lambda>got tr.
             case errorOf got of
               Some e \<Rightarrow>
                 if e = NotFound then finalizeLoop w stream srcClusterName clients tr
                 else (Returned (Some (Api e)), tr)
             | None \<Rightarrow>
                 andThen (ensureRemoveFinalizer w (imageStreamOf got) (Some cl) tr)
                   (\<lambda>err tr.
                      case err of
                        Some e \<Rightarrow> (Returned (Some e), tr)
                      | None \<Rightarrow>
                          let isToDelete =
                                (if finalizerName \<in> set (is_Finalizers (imageStreamOf got))
                                 then (imageStreamOf got)\<lparr>is_Finalizers :=
                                        sort (remdups (removeAll finalizerName
                                          (is_Finalizers (imageStreamOf got))))\<rparr>
                                 else imageStreamOf got)
                          in andThen
                               (invoke w (Some cl) (\<lambda>c. DeleteImageStream c isToDelete) tr)
                               (\<lambda>deleted tr.
                                  case errorOf deleted of
                                    Some e \<Rightarrow>
                                      if e \<noteq> NotFound then (Returned (Some (Api e)), tr)
                                      else finalizeLoop w stream srcClusterName clients tr
                                  | None \<Rightarrow>
                                      finalizeLoop w stream srcClusterName clients tr))))"

definition finalizeIfNeeded ::
  "env \<Rightarrow> string list \<Rightarrow> ImageStream \<Rightarrow> string \<Rightarrow> (string \<times> client) list \<Rightarrow> trace \<Rightarrow>
   error option result \<times> trace" where
  "finalizeIfNeeded w order stream srcClusterName clients tr =
     (if finalizerName \<notin> set (is_Finalizers stream) then (Returned None, tr)
      else
        andThen (finalizeLoop w stream srcClusterName (rangeOver order clients) tr)
          (\<lambda>err tr.
             case err of
               Some e \<Rightarrow> (Returned (Some e), tr)
             | None \<Rightarrow> ensureRemoveFinalizer w stream (map_of clients srcClusterName) tr))"

text \<open>
  \<^verbatim>\<open>createAndCheckStatus\<close>. A nil \<^verbatim>\<open>Status.Images\<close> is replaced by one empty status; an
  empty slice that is not nil makes \<^verbatim>\<open>Images[0]\<close> panic.
\<close>

definition createAndCheckStatus ::
  "env \<Rightarrow> client \<Rightarrow> ImageStreamImport \<Rightarrow> trace \<Rightarrow> error option result \<times> trace" where
  "createAndCheckStatus w cl imageStreamImport tr =
     andThen (invoke w (Some cl) (\<lambda>c. CreateImageStreamImport c imageStreamImport) tr)
       (\<lambda>created tr.
          case created of
            Failed e \<Rightarrow> (Returned (Some (Errorf ''failed to import Image'' (Some (Api e)))), tr)
          | GotImportStatus (Some []) \<Rightarrow> (Panicked, tr)
          | GotImportStatus (Some (Some img # _)) \<Rightarrow> (Returned None, tr)
          | _ \<Rightarrow> (Returned (Some (Errorf ''imageStreamImport did not succeed'' None)), tr))"

text \<open>\<^verbatim>\<open>imagestream\<close> after its mutate function, and \<^verbatim>\<open>pullSecret\<close> after its own.\<close>

definition imagestream :: "ImageStream \<Rightarrow> ImageStream" where
  "imagestream imageStream =
     emptyImageStream
       \<lparr>is_Namespace := is_Namespace imageStream,
        is_Name := is_Name imageStream,
        is_Annotations :=
          filter (\<lambda>(k, v). hasPrefix k releaseConfigAnnotationPrefix)
            (is_Annotations imageStream),
        is_LookupPolicyLocal := is_LookupPolicyLocal imageStream\<rparr>"

definition pullSecret :: "reconciler \<Rightarrow> string \<Rightarrow> Secret" where
  "pullSecret r namespace =
     \<lparr>sec_Namespace = namespace, sec_Name = pullSecretName,
      sec_Data = [(DockerConfigJsonKey, pullSecretGetter r)],
      sec_Type = ''kubernetes.io/dockerconfigjson''\<rparr>"

text \<open>
  \<^verbatim>\<open>wait.Poll\<close> with the condition of lines 268 to 276: the stream is read until it is
  found, an error other than not-found ends the wait, and so does the deadline.
\<close>

fun pollImageStream ::
  "env \<Rightarrow> client \<Rightarrow> string \<Rightarrow> string \<Rightarrow> string \<Rightarrow> nat \<Rightarrow> trace \<Rightarrow>
   error option result \<times> trace" where
  "pollImageStream w cl clusterName namespace name 0 tr =
     (Returned (Some (Errorf ''timed out waiting for the condition'' None)), tr)"
| "pollImageStream w cl clusterName namespace name (Suc n) tr =
     andThen (invoke w (Some cl) (\<lambda>c. GetImageStream c namespace name) tr)
       (\<lambda>got tr.
          case errorOf got of
            None \<Rightarrow> (Returned None, tr)
          | Some e \<Rightarrow>
              if e = NotFound then pollImageStream w cl clusterName namespace name n tr
              else (Returned (Some (Errorf (''failed to get imagestream on cluster ''
                                      @ clusterName) (Some (Api e)))), tr))"

subsection \<open>reconcile\<close>

text \<open>The loop of lines 199 to 210, which gathers the tag from every cluster.\<close>

fun gatherTags ::
  "env \<Rightarrow> request \<Rightarrow> (string \<times> client) list \<Rightarrow> (string \<times> ImageStreamTag) list \<Rightarrow> trace \<Rightarrow>
   (error + (string \<times> ImageStreamTag) list) result \<times> trace" where
  "gatherTags w req [] isTags tr = (Returned (Inr isTags), tr)"
| "gatherTags w req ((clusterName, cl) # clients) isTags tr =
     andThen
       (invoke w (Some cl) (\<lambda>c. GetImageStreamTag c (req_Namespace req) (req_Name req)) tr)
       (\<lambda>got tr.
          case errorOf got of
            Some e \<Rightarrow>
              if e = NotFound then gatherTags w req clients isTags tr
              else (Returned (Inl (Errorf (''failed to get imageStreamTag ''
                      @ req_Namespace req @ ''/'' @ req_Name req @ '' from cluster ''
                      @ clusterName) (Some (Api e)))), tr)
          | None \<Rightarrow>
              gatherTags w req clients
                (AList.update clusterName (imageStreamTagOf got) isTags) tr)"

text \<open>
  The body of the loop of lines 241 to 325 for one cluster either falls through to the
  next cluster (\<^verbatim>\<open>continue\<close>, or the end of the body) or makes \<^verbatim>\<open>reconcile\<close> return.
\<close>

datatype flow = Next | Return "error option"

definition syncCluster ::
  "env \<Rightarrow> apiConstants \<Rightarrow> nat \<Rightarrow> reconciler \<Rightarrow> request \<Rightarrow> string \<Rightarrow> string \<Rightarrow>
   (string \<times> ImageStreamTag) list \<Rightarrow> string \<Rightarrow> ImageStreamTag \<Rightarrow> ImageStream \<Rightarrow>
   string \<Rightarrow> client \<Rightarrow> trace \<Rightarrow> flow result \<times> trace" where
  "syncCluster w api polls r req imageStreamName imageTag isTags srcClusterName
       sourceImageStreamTag sourceImageStream clusterName cl tr =
     (if clusterName = srcClusterName then (Returned Next, tr)
      else if dockerImageImportedFromTargetingCluster api clusterName (Some sourceImageStreamTag)
      then (Returned Next, tr)
      else
        andThen
          (andThen (invoke w (Some cl) (\<lambda>c. GetNamespace c (req_Namespace req)) tr)
             (\<lambda>got tr.
                case errorOf got of
                  None \<Rightarrow> (Returned None, tr)
                | Some e \<Rightarrow>
                    if e \<noteq> NotFound
                    then (Returned (Some (Errorf (''failed to check if namespace ''
                            @ req_Namespace req @ '' exists on cluster '' @ clusterName)
                            (Some (Api e)))), tr)
                    else
                      andThen
                        (invoke w (Some cl)
                           (\<lambda>c. CreateNamespace c (req_Namespace req)
                                  [(annotationDPTPRequester, ControllerName)]) tr)
                        (\<lambda>created tr.
                           case errorOf created of
                             None \<Rightarrow> (Returned None, tr)
                           | Some e' \<Rightarrow>
                               if e' \<noteq> AlreadyExists
                               then (Returned (Some (Errorf (''failed to create namespace ''
                                       @ req_Namespace req @ '' on cluster '' @ clusterName)
                                       (Some (Api e')))), tr)
                               else (Returned None, tr))))
          (\<lambda>err tr.
             case err of
               Some e \<Rightarrow> (Returned (Return (Some e)), tr)
             | None \<Rightarrow>
                 andThen
                   (invoke w (Some cl)
                      (\<lambda>c. CreateOrUpdateImageStream c (imagestream sourceImageStream)) tr)
                   (\<lambda>ensured tr.
                      case errorOf ensured of
                        Some e \<Rightarrow>
                          (Returned (Return (Some (Errorf
                             (''failed to ensure imagestream on cluster '' @ clusterName)
                             (Some (Api e))))), tr)
                      | None \<Rightarrow>
                          andThen
                            (pollImageStream w cl clusterName (is_Namespace sourceImageStream)
                               (is_Name sourceImageStream) polls tr)
                            (\<lambda>waited tr.
                               case waited of
                                 Some e \<Rightarrow>
                                   (Returned (Return (Some (Errorf
                                      (''failed to wait for ensured imagestream to appear in cache on cluster ''
                                         @ clusterName) (Some e)))), tr)
                               | None \<Rightarrow>
                                   if (case map_of isTags clusterName of
                                         None \<Rightarrow> False
                                       | Some isTag \<Rightarrow>
                                           img_Name (ist_Image isTag)
                                             = img_Name (ist_Image sourceImageStreamTag))
                                   then (Returned (Return None), tr)
                                   else
                                     andThen
                                       (invoke w (Some cl)
                                          (\<lambda>c. CreateOrUpdateSecret c
                                                 (pullSecret r (req_Namespace req))) tr)
                                       (\<lambda>secret tr.
                                          case errorOf secret of
                                            Some e \<Rightarrow>
                                              (Returned (Return (Some (Errorf
                                                 (''failed to ensure imagePullSecret on cluster ''
                                                    @ clusterName) (Some (Api e))))), tr)
                                          | None \<Rightarrow>
                                              (case publicDomainForImage api srcClusterName
                                                      (img_DockerImageReference
                                                         (ist_Image sourceImageStreamTag)) of
                                                 Inl e \<Rightarrow>
                                                   (Returned (Return (Some (Errorf
                                                      ''failed to get the public domain''
                                                      (Some e)))), tr)
                                               | Inr imageName \<Rightarrow>
                                                   let imageStreamImport =
                                                     \<lparr>isi_Namespace = req_Namespace req,
                                                      isi_Name = imageStreamName,
                                                      isi_Import = True,
                                                      isi_From =
                                                        \<lparr>or_Kind = ''DockerImage'',
                                                         or_Namespace = [],
                                                         or_Name = imageName\<rparr>,
                                                      isi_To = imageTag,
                                                      isi_ReferencePolicyLocal = True\<rparr>
                                                   in if readOnly r then (Returned (Return None), tr)
                                                      else
                                                        andThen
                                                          (createAndCheckStatus w cl
                                                             imageStreamImport tr)
                                                          (\<lambda>imported tr.
                                                             case imported of
                                                               Some e \<Rightarrow>
                                                                 (Returned (Return (Some (Errorf
                                                                    (''failed to create and check the status for imageStreamImport for tag ''
                                                                       @ imageTag @ '' of ''
                                                                       @ imageStreamName
                                                                       @ '' in namespace ''
                                                                       @ req_Namespace req
                                                                       @ '' on cluster ''
                                                                       @ clusterName)
                                                                    (Some e)))), tr)
                                                             | None \<Rightarrow> (Returned Next, tr))))))))"

fun syncLoop ::
  "env \<Rightarrow> apiConstants \<Rightarrow> nat \<Rightarrow> reconciler \<Rightarrow> request \<Rightarrow> string \<Rightarrow> string \<Rightarrow>
   (string \<times> ImageStreamTag) list \<Rightarrow> string \<Rightarrow> ImageStreamTag \<Rightarrow> ImageStream \<Rightarrow>
   (string \<times> client) list \<Rightarrow> trace \<Rightarrow> error option result \<times> trace" where
  "syncLoop w api polls r req imageStreamName imageTag isTags srcClusterName
       sourceImageStreamTag sourceImageStream [] tr = (Returned None, tr)"
| "syncLoop w api polls r req imageStreamName imageTag isTags srcClusterName
       sourceImageStreamTag sourceImageStream ((clusterName, cl) # clients) tr =
     andThen
       (syncCluster w api polls r req imageStreamName imageTag isTags srcClusterName
          sourceImageStreamTag sourceImageStream clusterName cl tr)
       (\<lambda>fl tr.
          case fl of
            Return err \<Rightarrow> (Returned err, tr)
          | Next \<Rightarrow>
              syncLoop w api polls r req imageStreamName imageTag isTags srcClusterName
                sourceImageStreamTag sourceImageStream clients tr)"

text \<open>
  Lines 218 to 326 of \<^verbatim>\<open>reconcile\<close>: what follows once a source cluster has been found. A
  source name without a gathered tag or without a client would be a nil dereference.
\<close>

definition syncFromSource ::
  "env \<Rightarrow> apiConstants \<Rightarrow> schedule \<Rightarrow> reconciler \<Rightarrow> request \<Rightarrow> string \<Rightarrow> string \<Rightarrow>
   (string \<times> ImageStreamTag) list \<Rightarrow> string \<Rightarrow> trace \<Rightarrow> error option result \<times> trace" where
  "syncFromSource w api sched r req imageStreamName imageTag isTags srcClusterName tr =
     andThen
       (invoke w (map_of (registryClients r) srcClusterName)
          (\<lambda>c. GetImageStream c (req_Namespace req) imageStreamName) tr)
       (\<lambda>got tr.
          case errorOf got of
            Some e \<Rightarrow>
              (Returned (Some (Errorf (''failed to get imageStream '' @ req_Namespace req
                 @ ''/'' @ imageStreamName @ '' from cluster '' @ srcClusterName)
                 (Some (Api e)))), tr)
          | None \<Rightarrow>
              let sourceImageStream = imageStreamOf got in
              if is_DeletionTimestamp sourceImageStream \<noteq> None
              then
                andThen
                  (finalizeIfNeeded w (finalizeOrder sched) sourceImageStream srcClusterName
                     (registryClients r) tr)
                  (\<lambda>err tr.
                     case err of
                       Some e \<Rightarrow>
                         (Returned (Some (Errorf (''failed to finalize '' @ req_Namespace req
                            @ ''/'' @ imageStreamName @ '' from cluster '' @ srcClusterName)
                            (Some e))), tr)
                     | None \<Rightarrow> (Returned None, tr))
              else
                andThen
                  (ensureFinalizer w sourceImageStream
                     (map_of (registryClients r) srcClusterName) tr)
                  (\<lambda>err tr.
                     case err of
                       Some e \<Rightarrow>
                         (Returned (Some (Errorf (''failed to ensure finalizer to ''
                            @ req_Namespace req @ ''/'' @ imageStreamName @ '' from cluster ''
                            @ srcClusterName) (Some e))), tr)
                     | None \<Rightarrow>
                         (case map_of isTags srcClusterName of
                            None \<Rightarrow> (Panicked, tr)
                          | Some sourceImageStreamTag \<Rightarrow>
                              syncLoop w api (pollAttempts sched) r req imageStreamName imageTag
                                isTags srcClusterName sourceImageStreamTag
                                (if finalizerName \<in> set (is_Finalizers sourceImageStream)
                                 then sourceImageStream
                                 else sourceImageStream\<lparr>is_Finalizers :=
                                        is_Finalizers sourceImageStream @ [finalizerName]\<rparr>)
                                (rangeOver (syncOrder sched) (registryClients r)) tr)))"

text \<open>\<^verbatim>\<open>reconcile\<close>; logging and the metrics counter are left out.\<close>

definition reconcile ::
  "env \<Rightarrow> apiConstants \<Rightarrow> schedule \<Rightarrow> reconciler \<Rightarrow> request \<Rightarrow> trace \<Rightarrow>
   error option result \<times> trace" where
  "reconcile w api sched r req tr =
     (case split (req_Name req) CHR '':'' of
        [imageStreamName, imageTag] \<Rightarrow>
          andThen
            (gatherTags w req (rangeOver (gatherOrder sched) (registryClients r)) [] tr)
            (\<lambda>gathered tr.
               case gathered of
                 Inl e \<Rightarrow> (Returned (Some e), tr)
               | Inr isTags \<Rightarrow>
                   let srcClusterName = findNewest (rangeOver (newestOrder sched) isTags) in
                   if srcClusterName = [] then (Returned None, tr)
                   else syncFromSource w api sched r req imageStreamName imageTag isTags
                          srcClusterName tr)
      | parts \<Rightarrow>
          (Returned (Some (Errorf (''when splitting imagestreamtagname '' @ req_Name req
             @ '' by : expected two results'') None)), tr))"

subsection \<open>Reading a trace\<close>

text \<open>The client a call was sent to, the calls of a trace sent to one client, and the
  calls that read an image stream tag.\<close>

definition clientOf :: "call \<Rightarrow> client option" where
  "clientOf c =
     (case c of
        GetImageStream cl ns name \<Rightarrow> Some cl
      | GetImageStreamTag cl ns name \<Rightarrow> Some cl
      | GetNamespace cl name \<Rightarrow> Some cl
      | CreateNamespace cl name annotations \<Rightarrow> Some cl
      | CreateImageStream cl stream \<Rightarrow> Some cl
      | UpdateImageStream cl stream \<Rightarrow> Some cl
      | UpdateImageStreamTag cl tag \<Rightarrow> Some cl
      | PatchImageStream cl stream \<Rightarrow> Some cl
      | DeleteImageStream cl stream \<Rightarrow> Some cl
      | CreateOrUpdateImageStream cl stream \<Rightarrow> Some cl
      | CreateOrUpdateSecret cl secret \<Rightarrow> Some cl
      | CreateImageStreamImport cl imp \<Rightarrow> Some cl
      | RunPod pod \<Rightarrow> None)"

definition callsTo :: "client \<Rightarrow> trace \<Rightarrow> trace" where
  "callsTo cl tr = filter (\<lambda>c. clientOf c = Some cl) tr"

definition isTagRead :: "call \<Rightarrow> bool" where
  "isTagRead c = (case c of GetImageStreamTag cl ns name \<Rightarrow> True | _ \<Rightarrow> False)"

text \<open>
  From the trace \<open>tr\<close> to the trace \<open>tr'\<close> only calls that satisfy \<open>P\<close> were sent.
\<close>

definition sends :: "(call \<Rightarrow> bool) \<Rightarrow> trace \<Rightarrow> trace \<Rightarrow> bool" where
  "sends P tr tr' = (take (length tr) tr' = tr \<and> list_all P (drop (length tr) tr'))"

definition isImport :: "call \<Rightarrow> bool" where
  "isImport c = (case c of CreateImageStreamImport cl imp \<Rightarrow> True | _ \<Rightarrow> False)"

subsection \<open>Concrete clusters\<close>

text \<open>
  Three registry clusters, each with the client of the same name; an image stream
  \<^verbatim>\<open>ci/tool\<close> that already carries the finalizer; and the request for \<^verbatim>\<open>ci/tool:latest\<close>.
\<close>

definition threeClusters :: "(string \<times> client) list" where
  "threeClusters =
     [(''api.ci'', ''api.ci''), (''app.ci'', ''app.ci''), (''build01'', ''build01'')]"

definition threeClusterReconciler :: "bool \<Rightarrow> reconciler" where
  "threeClusterReconciler ro =
     \<lparr>registryClients = threeClusters, pullSecretGetter = ''{}'', readOnly = ro\<rparr>"

definition exampleApi :: apiConstants where
  "exampleApi =
     \<lparr>ServiceDomainAPICIRegistry = ''registry.svc.ci.openshift.org'',
      ServiceDomainAPPCIRegistry = ''registry.ci.openshift.org''\<rparr>"

definition exampleRequest :: request where
  "exampleRequest = \<lparr>req_Namespace = ''ci'', req_Name = ''tool:latest''\<rparr>"

definition exampleStream :: ImageStream where
  "exampleStream =
     emptyImageStream\<lparr>is_Namespace := ''ci'', is_Name := ''tool'',
       is_Finalizers := [finalizerName]\<rparr>"

definition tagAt :: "string \<Rightarrow> time \<Rightarrow> ImageStreamTag" where
  "tagAt imageName creation =
     \<lparr>ist_Namespace = ''ci'', ist_Name = ''tool:latest'', ist_Tag = None,
      ist_Image =
        \<lparr>img_Name = imageName, img_CreationTimestamp = creation,
         img_DockerImageReference =
           ''docker-registry.default.svc:5000/ci/tool@'' @ imageName\<rparr>\<rparr>"

text \<open>Every range visits the clusters in the one order given; fifty polls fit the deadline.\<close>

definition inOrder :: "string list \<Rightarrow> schedule" where
  "inOrder order =
     \<lparr>gatherOrder = order, newestOrder = order, finalizeOrder = order, syncOrder = order,
      pollAttempts = 50\<rparr>"

text \<open>
  The clusters named in \<open>have\<close> hold the tag, all with the image \<open>imageName\<close> created at
  \<open>creation\<close>; the others answer not-found. Every cluster has the stream, accepts every
  write, and completes an import.
\<close>

definition tagOnWorld :: "string list \<Rightarrow> string \<Rightarrow> time \<Rightarrow> env" where
  "tagOnWorld have imageName creation tr c =
     (case c of
        GetImageStreamTag cl ns name \<Rightarrow>
          (if cl \<in> set have then GotImageStreamTag (tagAt imageName creation)
           else Failed NotFound)
      | GetImageStream cl ns name \<Rightarrow> GotImageStream exampleStream
      | CreateImageStreamImport cl imp \<Rightarrow>
          GotImportStatus (Some [Some (ist_Image (tagAt imageName creation))])
      | _ \<Rightarrow> Succeeded)"

section \<open>Facts about the string functions\<close>

lemma split_Cons: "\<exists>rest. split s sep = takeWhile (\<lambda>c. c \<noteq> sep) s # rest"
  by (subst split.simps) simp

lemma split_no_sep: "sep \<notin> set s \<Longrightarrow> split s sep = [s]"
proof -
  assume "sep \<notin> set s"
  then have "dropWhile (\<lambda>c. c \<noteq> sep) s = []" and "takeWhile (\<lambda>c. c \<noteq> sep) s = s"
    by (auto simp: takeWhile_eq_all_conv)
  then show ?thesis by (subst split.simps) (simp only: list.case)
qed

lemma split_with_sep:
  assumes "sep \<in> set s"
  shows "\<exists>second rest. split s sep = takeWhile (\<lambda>c. c \<noteq> sep) s # second # rest"
proof -
  from assms have "dropWhile (\<lambda>c. c \<noteq> sep) s \<noteq> []" by simp
  then obtain d ds where d: "dropWhile (\<lambda>c. c \<noteq> sep) s = d # ds"
    by (cases "dropWhile (\<lambda>c. c \<noteq> sep) s") auto
  obtain rest where "split ds sep = takeWhile (\<lambda>c. c \<noteq> sep) ds # rest"
    using split_Cons by blast
  with d show ?thesis by (subst split.simps) simp
qed

lemma hasPrefix_takeWhile: "hasPrefix s (takeWhile P s)"
  by (induction s) auto

lemma index_takeWhile: "index s (takeWhile P s) = Some 0"
proof (cases s)
  case Nil
  then show ?thesis by simp
next
  case (Cons c cs)
  have "hasPrefix (c # cs) (takeWhile P (c # cs))"
    by (rule hasPrefix_takeWhile)
  then show ?thesis
    unfolding Cons by (simp only: index.simps if_True)
qed

lemma replaceFirst_host:
  "replaceFirst s (takeWhile P s) new = new @ dropWhile P s"
proof -
  have "drop (length (takeWhile P s)) s = dropWhile P s"
    by (metis append_eq_conv_conj takeWhile_dropWhile_id)
  then show ?thesis by (simp add: replaceFirst_def index_takeWhile)
qed

lemma getPublicImageReference_eq:
  "getPublicImageReference ref repo =
     (if contains ref '':5000'' \<and> CHR ''/'' \<in> set repo \<and> CHR ''/'' \<in> set ref
      then takeWhile (\<lambda>c. c \<noteq> CHR ''/'') repo @ dropWhile (\<lambda>c. c \<noteq> CHR ''/'') ref
      else ref)"
proof (cases "contains ref '':5000''")
  case False
  then show ?thesis by (simp add: getPublicImageReference_def)
next
  case c: True
  show ?thesis
  proof (cases "CHR ''/'' \<in> set repo")
    case False
    then show ?thesis
      using c by (simp add: getPublicImageReference_def split_no_sep)
  next
    case r: True
    then obtain s2 rest2 where
      repo: "split repo CHR ''/'' = takeWhile (\<lambda>c. c \<noteq> CHR ''/'') repo # s2 # rest2"
      using split_with_sep by blast
    show ?thesis
    proof (cases "CHR ''/'' \<in> set ref")
      case False
      then show ?thesis
        using c repo by (simp add: getPublicImageReference_def split_no_sep)
    next
      case True
      then obtain t2 rest3 where
        "split ref CHR ''/'' = takeWhile (\<lambda>c. c \<noteq> CHR ''/'') ref # t2 # rest3"
        using split_with_sep by blast
      then show ?thesis
        using c r True repo
        by (simp add: getPublicImageReference_def replaceFirst_host)
    qed
  qed
qed

section \<open>Facts about toPromote\<close>

lemma map_of_includeImages:
  "map_of (fst (fold (includeImages R) I acc)) k =
     (if \<exists>i\<in>set I. To i = k \<and> (k \<in> R \<or> \<not> Optional i) then Some k else map_of (fst acc) k)"
  by (induction I arbitrary: acc) (auto simp: includeImages_def Let_def update_conv')

lemma map_of_excludeImage:
  "map_of (fst (fold excludeImage E acc)) k =
     (if k \<in> set E then None else map_of (fst acc) k)"
  by (induction E arbitrary: acc) (auto simp: excludeImage_def delete_conv')

lemma map_of_addImage_step:
  "map_of (fst (addImage a acc)) k = (if k = fst a then Some (snd a) else map_of (fst acc) k)"
  by (simp add: addImage_def update_conv')

lemma map_of_prefixName_step:
  "map_of (fst (prefixName p a acc)) k =
     (if k = p @ fst a then Some (snd a) else map_of (fst acc) k)"
  by (simp add: prefixName_def Let_def update_conv')

lemma map_of_addImage:
  "distinct (map fst A) \<Longrightarrow>
   map_of (fst (fold addImage A acc)) k =
     (case map_of A k of Some v \<Rightarrow> Some v | None \<Rightarrow> map_of (fst acc) k)"
proof (induction A arbitrary: acc)
  case Nil
  then show ?case by simp
next
  case (Cons a A)
  then have "fst a \<notin> fst ` set A" by simp
  then have none: "map_of A (fst a) = None" by (simp add: map_of_eq_None_iff)
  from Cons.prems have "distinct (map fst A)" by simp
  then have "map_of (fst (fold addImage A (addImage a acc))) k =
     (case map_of A k of Some v \<Rightarrow> Some v | None \<Rightarrow> map_of (fst (addImage a acc)) k)"
    by (rule Cons.IH)
  with none show ?case
    by (simp add: map_of_addImage_step split: option.splits)
qed

lemma map_of_prefixName:
  "distinct (map fst xs) \<Longrightarrow>
   map_of (fst (fold (prefixName p) xs acc)) k =
     (if \<exists>d. k = p @ d \<and> d \<in> fst ` set xs then map_of xs (drop (length p) k)
      else map_of (fst acc) k)"
proof (induction xs arbitrary: acc)
  case Nil
  then show ?case by simp
next
  case (Cons a xs)
  then have notin: "fst a \<notin> fst ` set xs" by simp
  then have none: "map_of xs (fst a) = None" by (simp add: map_of_eq_None_iff)
  from Cons.prems have "distinct (map fst xs)" by simp
  then have "map_of (fst (fold (prefixName p) xs (prefixName p a acc))) k =
     (if \<exists>d. k = p @ d \<and> d \<in> fst ` set xs then map_of xs (drop (length p) k)
      else map_of (fst (prefixName p a acc)) k)"
    by (rule Cons.IH)
  with none notin show ?case
    by (auto simp: map_of_prefixName_step)
qed

lemma map_of_prefixName_empty:
  assumes "distinct (map fst xs)"
  shows "map_of (fst (fold (prefixName p) xs ([], {}))) k =
     (if \<exists>d. k = p @ d then map_of xs (drop (length p) k) else None)"
proof (cases "\<exists>d. k = p @ d \<and> d \<in> fst ` set xs")
  case True
  then show ?thesis using assms by (auto simp: map_of_prefixName)
next
  case False
  have "map_of xs (drop (length p) k) = None" if "k = p @ d" for d
  proof -
    from False that have "d \<notin> fst ` set xs" by blast
    with that show ?thesis by (simp add: map_of_eq_None_iff)
  qed
  with False show ?thesis using assms by (auto simp: map_of_prefixName)
qed





lemma distinct_includeImages:
  "distinct (map fst (fst acc)) \<Longrightarrow> distinct (map fst (fst (fold (includeImages R) I acc)))"
  by (induction I arbitrary: acc) (auto simp: includeImages_def Let_def distinct_update)

lemma distinct_excludeImage:
  "distinct (map fst (fst acc)) \<Longrightarrow> distinct (map fst (fst (fold excludeImage E acc)))"
  by (induction E arbitrary: acc) (auto simp: excludeImage_def distinct_delete)

lemma distinct_addImage:
  "distinct (map fst (fst acc)) \<Longrightarrow> distinct (map fst (fst (fold addImage A acc)))"
  by (induction A arbitrary: acc) (auto simp: addImage_def distinct_update)

lemma distinct_tagsBeforePrefix: "distinct (map fst (fst (tagsBeforePrefix C I R)))"
  by (simp add: tagsBeforePrefix_def distinct_addImage distinct_excludeImage
      distinct_includeImages)

lemma map_of_tagsBeforePrefix:
  assumes "distinct (map fst (AdditionalImages C))"
  shows "map_of (fst (tagsBeforePrefix C I R)) k =
    (case map_of (AdditionalImages C) k of
       Some v \<Rightarrow> Some v
     | None \<Rightarrow>
        if k \<in> set (ExcludedImages C) then None
        else if \<exists>i\<in>set I. To i = k \<and> (k \<in> R \<or> \<not> Optional i) then Some k else None)"
  using assms
  by (simp add: tagsBeforePrefix_def map_of_addImage map_of_excludeImage map_of_includeImages
      split: option.splits)


lemma toPromote_pointwise:
  assumes "distinct (map fst (AdditionalImages C))" and "\<not> Disabled C"
  shows "map_of (fst (toPromote C I R)) (NamePrefix C @ k) =
    (case map_of (AdditionalImages C) k of
       Some src \<Rightarrow> Some src
     | None \<Rightarrow>
        if k \<in> set (ExcludedImages C) then None
        else if \<exists>i\<in>set I. To i = k \<and> (k \<in> R \<or> \<not> Optional i) then Some k else None)"
proof (cases "NamePrefix C = []")
  case True
  with assms show ?thesis
    by (simp add: toPromote_def Let_def map_of_tagsBeforePrefix)
next
  case False
  have "map_of (fst (fold (prefixName (NamePrefix C)) (fst (tagsBeforePrefix C I R)) ([], {})))
      (NamePrefix C @ k) = map_of (fst (tagsBeforePrefix C I R)) k"
    by (simp add: map_of_prefixName_empty distinct_tagsBeforePrefix)
  with False assms show ?thesis
    by (simp add: toPromote_def Let_def map_of_tagsBeforePrefix)
qed

lemma fold_keeps:
  assumes "\<And>x acc. P acc \<Longrightarrow> P (f x acc)" and "P acc"
  shows "P (fold f xs acc)"
  using assms(2) by (induction xs arbitrary: acc) (simp_all add: assms(1))

lemma toPromote_names:
  "snd (toPromote C I R) = fst ` set (fst (toPromote C I R))"
proof -
  let ?P = "\<lambda>acc :: (string \<times> string) list \<times> string set. snd acc = fst ` set (fst acc)"
  have inc: "?P (includeImages R i acc)" if "?P acc" for i acc
    using that by (auto simp: includeImages_def Let_def dom_update)
  have exc: "?P (excludeImage t acc)" if "?P acc" for t acc
    using that by (force simp: excludeImage_def AList.delete_eq)
  have add: "?P (addImage e acc)" if "?P acc" for e acc
    using that by (auto simp: addImage_def dom_update)
  have pre: "?P (prefixName p e acc)" if "?P acc" for p e acc
    using that by (auto simp: prefixName_def Let_def dom_update)
  have empty: "?P ([], {})" by simp
  have before: "?P (tagsBeforePrefix C I R)"
    unfolding tagsBeforePrefix_def
    by (intro fold_keeps [where P = ?P] inc exc add empty)
  have "?P (fold (prefixName (NamePrefix C)) (fst (tagsBeforePrefix C I R)) ([], {}))"
    by (intro fold_keeps [where P = ?P] pre empty)
  with before show ?thesis
    by (simp add: toPromote_def Let_def)
qed

section \<open>Facts about getPromotionPod\<close>

lemma sort_keys:
  "distinct (map fst M) \<Longrightarrow> sort (map fst M) = sorted_list_of_set (dom (map_of M))"
  by (metis distinct_remdups_id dom_map_of_conv_image_fst list.set_map sorted_list_of_set_sort_remdups)

lemma mapIndex_the: "k \<in> dom (map_of M) \<Longrightarrow> mapIndex M k = the (map_of M k)"
  by (auto simp: mapIndex_def)

section \<open>Facts about run\<close>

lemma andThen_Returned [simp]: "andThen (Returned x, tr) f = f x tr"
  by (simp add: andThen_def)

lemma andThen_Panicked [simp]: "andThen (Panicked, tr) f = (Panicked, tr)"
  by (simp add: andThen_def)

lemma invoke_None [simp]: "invoke w None mk tr = (Panicked, tr)"
  by (simp add: invoke_def)

lemma invoke_Some [simp]: "invoke w (Some c) mk tr = (Returned (w tr (mk c)), tr @ [mk c])"
  by (simp add: invoke_def)

lemma mirrorLoop_skips_absent:
  "mirrorLoop w cl cfg p tags acc tr =
   mirrorLoop w cl cfg p (filter (\<lambda>(dst, src). findDockerImageReference p src \<noteq> []) tags) acc tr"
proof (induction tags arbitrary: acc tr)
  case Nil
  then show ?case by simp
next
  case (Cons entry tags)
  obtain dst src where entry: "entry = (dst, src)" by (cases entry)
  show ?case
  proof (cases "findDockerImageReference p src = []")
    case True
    then show ?thesis using Cons.IH entry by simp
  next
    case False
    show ?thesis
    proof (cases "createIfNotFound w cl (Namespace cfg) (snd (mirrorDestination cfg dst)) tr")
      case (Pair r tr')
      then show ?thesis using False Cons.IH entry by (cases r) (simp_all add: Let_def)
    qed
  qed
qed

lemma getImageMirrorTarget_all_absent:
  assumes "\<forall>e\<in>set tags. findDockerImageReference p (snd e) = []"
  shows "getImageMirrorTarget w cl cfg tags (Some p) tr = (Returned [], tr)"
proof -
  from assms have "filter (\<lambda>(dst, src). findDockerImageReference p src \<noteq> []) tags = []"
    by (auto simp: filter_empty_conv)
  then show ?thesis
    by (simp add: getImageMirrorTarget_def mirrorLoop_skips_absent [of w cl cfg p tags])
qed

lemma findStatusItems_absent:
  "(\<forall>t\<in>set ts. ntel_Tag t \<noteq> tag)
   \<or> (\<exists>t. find (\<lambda>t. ntel_Tag t = tag) ts = Some t \<and> ntel_Items t = [])
   \<Longrightarrow> findStatusItems ts tag = []"
  by (induction ts) (auto split: if_splits)

lemma run_nothing_to_promote:
  "snd (toPromote (config s) (images s) (requiredImages s)) = {}
   \<Longrightarrow> run w F n s tr = (Returned None, tr)"
  by (simp add: run_def Let_def)

lemma run_empty_tag_mapping:
  "fst (toPromote (config s) (images s) (requiredImages s)) = []
   \<Longrightarrow> run w F n s tr = (Returned None, tr)"
  using toPromote_names [of "config s" "images s" "requiredImages s"]
  by (simp add: run_nothing_to_promote)

lemma run_push_secret_never_nil:
  assumes "snd (toPromote (config s) (images s) (requiredImages s)) \<noteq> {}"
    and "pushSecret s \<noteq> None"
  shows "fst (run w F n s tr) \<noteq> Returned None"
proof (cases "srcClient s")
  case None
  with assms show ?thesis by (simp add: run_def Let_def)
next
  case (Some c)
  show ?thesis
  proof (cases "errorOf (w tr (GetImageStream c (jobSpec_Namespace s) PipelineImageStream))")
    case (Some e)
    with assms \<open>srcClient s = Some c\<close> show ?thesis by (simp add: run_def Let_def)
  next
    case None
    with assms \<open>srcClient s = Some c\<close> show ?thesis
      by (cases "imageCreatorClient s") (simp_all add: run_def Let_def runWithPushSecret_def)
  qed
qed

lemma retryOnConflict_not:
  assumes "\<And>t. fst (fn t) \<noteq> Returned (Some e)"
  shows "fst (retryOnConflict steps fn tr) \<noteq> Returned (Some e)"
proof (induction steps arbitrary: tr)
  case 0
  show ?case by simp
next
  case (Suc steps)
  obtain res t where fn: "fn tr = (res, t)" by (cases "fn tr")
  with assms [of tr] have ne: "res \<noteq> Returned (Some e)" by simp
  show ?case
  proof (cases res)
    case Panicked
    with fn show ?thesis by simp
  next
    case (Returned err)
    with fn ne Suc.IH show ?thesis by (cases err) auto
  qed
qed

lemma promoteByName_not_clientIsNil:
  "fst (promoteByName w F s tags pipeline tr) \<noteq> Returned (Some (Errorf ''image-creator client is nil'' None))"
  by (cases "dstClient s")
    (auto simp: promoteByName_def Let_def split: option.split)

lemma promoteOneTag_not_clientIsNil:
  "fst (promoteOneTag w s dst valid tr) \<noteq> Returned (Some (Errorf ''image-creator client is nil'' None))"
  by (cases "dstClient s")
    (auto simp: promoteOneTag_def Let_def split: option.split)

lemma promoteByTag_not_clientIsNil:
  "fst (promoteByTag w F s pipeline tags tr) \<noteq> Returned (Some (Errorf ''image-creator client is nil'' None))"
proof (induction tags arbitrary: tr)
  case Nil
  show ?case by simp
next
  case (Cons entry tags)
  obtain dst src where entry: "entry = (dst, src)" by (cases entry)
  show ?case
  proof (cases "F pipeline src")
    case None
    with entry Cons.IH show ?thesis by simp
  next
    case (Some valid)
    obtain res t where r: "retryOnConflict promotionRetry_Steps (promoteOneTag w s dst valid) tr
        = (res, t)"
      by (cases "retryOnConflict promotionRetry_Steps (promoteOneTag w s dst valid) tr")
    have "fst (retryOnConflict promotionRetry_Steps (promoteOneTag w s dst valid) tr)
        \<noteq> Returned (Some (Errorf ''image-creator client is nil'' None))"
      by (intro retryOnConflict_not promoteOneTag_not_clientIsNil)
    with r have ne: "res \<noteq> Returned (Some (Errorf ''image-creator client is nil'' None))" by simp
    show ?thesis
    proof (cases res)
      case Panicked
      with r Some entry show ?thesis by simp
    next
      case (Returned err)
      with r Some entry ne Cons.IH show ?thesis by (cases err) auto
    qed
  qed
qed

lemma runWithPushSecret_clientIsNil:
  "(fst (runWithPushSecret w n s tags pipeline tr) = Returned (Some (Errorf ''image-creator client is nil'' None)))
     = (imageCreatorClient s \<noteq> None)"
  by (cases "imageCreatorClient s") (simp_all add: runWithPushSecret_def)

lemma run_clientIsNil:
  "(fst (run w F n s tr) = Returned (Some (Errorf ''image-creator client is nil'' None)))
     = (snd (toPromote (config s) (images s) (requiredImages s)) \<noteq> {}
        \<and> (\<exists>c. srcClient s = Some c
              \<and> errorOf (w tr (GetImageStream c (jobSpec_Namespace s) PipelineImageStream)) = None)
        \<and> pushSecret s \<noteq> None
        \<and> imageCreatorClient s \<noteq> None)"
proof (cases "snd (toPromote (config s) (images s) (requiredImages s)) = {}")
  case True
  then show ?thesis by (simp add: run_def Let_def)
next
  case names: False
  show ?thesis
  proof (cases "srcClient s")
    case None
    with names show ?thesis by (simp add: run_def Let_def)
  next
    case (Some c)
    let ?get = "GetImageStream c (jobSpec_Namespace s) PipelineImageStream"
    show ?thesis
    proof (cases "errorOf (w tr ?get)")
      case (Some e)
      with names \<open>srcClient s = Some c\<close> show ?thesis
        by (simp add: run_def Let_def)
    next
      case None
      show ?thesis
      proof (cases "pushSecret s = None")
        case False
        with names None \<open>srcClient s = Some c\<close> show ?thesis
          by (simp add: run_def Let_def runWithPushSecret_clientIsNil)
      next
        case True
        have "fst (retryOnConflict promotionRetry_Steps
                (promoteByName w F s (fst (toPromote (config s) (images s) (requiredImages s)))
                   (imageStreamOf (w tr ?get))) (tr @ [?get])) \<noteq> Returned (Some (Errorf ''image-creator client is nil'' None))"
          by (intro retryOnConflict_not promoteByName_not_clientIsNil)
        with True names None \<open>srcClient s = Some c\<close> show ?thesis
          by (simp add: run_def Let_def promoteByTag_not_clientIsNil)
      qed
    qed
  qed
qed

section \<open>Facts about findNewest and reconcile\<close>

lemma fold_newer_ge: "fst state \<le> fst (fold newer xs state)"
proof (induction xs arbitrary: state)
  case Nil
  show ?case by simp
next
  case (Cons x xs)
  have "fst state \<le> fst (newer x state)" by (simp add: newer_def)
  also have "\<dots> \<le> fst (fold newer xs (newer x state))" by (rule Cons.IH)
  finally show ?case by simp
qed

lemma fold_newer_bound: "e \<in> set xs \<Longrightarrow> created (snd e) \<le> fst (fold newer xs state)"
proof (induction xs arbitrary: state)
  case Nil
  then show ?case by simp
next
  case (Cons x xs)
  show ?case
  proof (cases "e = x")
    case True
    have "created (snd x) \<le> fst (newer x state)" by (simp add: newer_def)
    also have "\<dots> \<le> fst (fold newer xs (newer x state))" by (rule fold_newer_ge)
    finally show ?thesis using True by simp
  next
    case False
    with Cons.prems have "e \<in> set xs" by simp
    then show ?thesis using Cons.IH by simp
  qed
qed

lemma fold_newer_cases:
  "fold newer xs state = state
   \<or> (\<exists>e\<in>set xs. fold newer xs state = (created (snd e), fst e) \<and> fst state < created (snd e))"
proof (induction xs arbitrary: state)
  case Nil
  show ?case by simp
next
  case (Cons x xs)
  have step: "newer x state = state
      \<or> (newer x state = (created (snd x), fst x) \<and> fst state < created (snd x))"
    by (simp add: newer_def)
  have le: "fst state \<le> fst (newer x state)" by (simp add: newer_def)
  from Cons.IH [of "newer x state"] show ?case
  proof
    assume "fold newer xs (newer x state) = newer x state"
    with step show ?thesis by auto
  next
    assume "\<exists>e\<in>set xs. fold newer xs (newer x state) = (created (snd e), fst e)
        \<and> fst (newer x state) < created (snd e)"
    then obtain e where "e \<in> set xs"
      "fold newer xs (newer x state) = (created (snd e), fst e)"
      "fst (newer x state) < created (snd e)" by blast
    with le show ?thesis by force
  qed
qed

lemma findNewest_latest:
  assumes "\<exists>e\<in>set isTags. 0 < created (snd e)"
  shows "\<exists>e\<in>set isTags. findNewest isTags = fst e
            \<and> (\<forall>e'\<in>set isTags. created (snd e') \<le> created (snd e))"
proof -
  from assms obtain a where a: "a \<in> set isTags" "0 < created (snd a)" by blast
  from fold_newer_cases [of isTags "(0, [])"] show ?thesis
  proof
    assume "fold newer isTags (0, []) = (0, [])"
    with fold_newer_bound [OF a(1), of "(0, [])"] a(2) show ?thesis by simp
  next
    assume "\<exists>e\<in>set isTags. fold newer isTags (0, []) = (created (snd e), fst e)
        \<and> fst (0::int, []::string) < created (snd e)"
    then obtain e where e: "e \<in> set isTags"
      "fold newer isTags (0, []) = (created (snd e), fst e)" by blast
    have "created (snd e') \<le> created (snd e)" if "e' \<in> set isTags" for e'
      using fold_newer_bound [OF that, of "(0, [])"] e(2) by simp
    with e show ?thesis by (auto simp: findNewest_def)
  qed
qed

lemma fold_newer_not_after:
  "\<forall>e\<in>set xs. created (snd e) \<le> fst state \<Longrightarrow> fold newer xs state = state"
  by (induction xs) (auto simp: newer_def)

lemma findNewest_none_after_zero:
  "\<forall>e\<in>set isTags. created (snd e) \<le> 0 \<Longrightarrow> findNewest isTags = []"
  by (simp add: findNewest_def fold_newer_not_after)

lemma rangeOver_subset: "e \<in> set (rangeOver order m) \<Longrightarrow> e \<in> set m"
  by (auto simp: rangeOver_def map_filter_def dest: map_of_SomeD)

lemma rangeOver_valid:
  assumes "distinct (map fst m)" and "validOrder order m"
  shows "set (rangeOver order m) = set m" and "map fst (rangeOver order m) = order"
proof -
  from assms(2) have keys: "set order = fst ` set m" by (simp add: validOrder_def)
  have "map fst (List.map_filter (\<lambda>k. map_option (Pair k) (map_of m k)) ks) = ks"
    if "set ks \<subseteq> fst ` set m" for ks
    using that
  proof (induction ks)
    case Nil
    show ?case by (simp add: map_filter_simps)
  next
    case (Cons k ks)
    then have "k \<in> fst ` set m" by simp
    then obtain v where "map_of m k = Some v"
      by (metis domD dom_map_of_conv_image_fst)
    with Cons show ?case by (simp add: map_filter_simps)
  qed
  with keys show "map fst (rangeOver order m) = order" by (simp add: rangeOver_def)
  show "set (rangeOver order m) = set m"
  proof
    show "set (rangeOver order m) \<subseteq> set m" using rangeOver_subset by blast
    show "set m \<subseteq> set (rangeOver order m)"
    proof
      fix e assume e: "e \<in> set m"
      then have "fst e \<in> set order" using keys by force
      moreover from e assms(1) have "map_of m (fst e) = Some (snd e)" by simp
      ultimately show "e \<in> set (rangeOver order m)"
        by (force simp: rangeOver_def map_filter_def)
    qed
  qed
qed

lemma rangeOver_Nil [simp]: "rangeOver order [] = []"
  by (induction order) (simp_all add: rangeOver_def map_filter_simps)

lemma gatherTags_reads:
  "gatherTags w req clients isTags tr = (res, tr')
   \<Longrightarrow> \<exists>reads. tr' = tr @ reads \<and> list_all isTagRead reads"
proof (induction clients arbitrary: isTags tr)
  case Nil
  then show ?case by simp
next
  case (Cons entry clients)
  obtain clusterName cl where entry: "entry = (clusterName, cl)" by (cases entry)
  let ?get = "GetImageStreamTag cl (req_Namespace req) (req_Name req)"
  have read: "isTagRead ?get" by (simp add: isTagRead_def)
  have "\<exists>isTags'. gatherTags w req clients isTags' (tr @ [?get]) = (res, tr')
      \<or> tr' = tr @ [?get]"
    using Cons.prems entry
    by (cases "errorOf (w tr ?get)") (auto split: if_splits)
  then have "\<exists>reads. tr' = (tr @ [?get]) @ reads \<and> list_all isTagRead reads"
  proof (elim exE disjE)
    fix isTags'
    assume "gatherTags w req clients isTags' (tr @ [?get]) = (res, tr')"
    then show ?thesis by (rule Cons.IH)
  next
    assume "tr' = tr @ [?get]"
    then show ?thesis by simp
  qed
  then obtain reads where "tr' = tr @ (?get # reads)" "list_all isTagRead reads" by auto
  with read show ?case by (intro exI [of _ "?get # reads"]) simp
qed

lemma gatherTags_all_not_found:
  "\<forall>e\<in>set clients. \<forall>t. w t (GetImageStreamTag (snd e) (req_Namespace req) (req_Name req))
      = Failed NotFound
   \<Longrightarrow> gatherTags w req clients isTags tr =
       (Returned (Inr isTags),
        tr @ map (\<lambda>e. GetImageStreamTag (snd e) (req_Namespace req) (req_Name req)) clients)"
proof (induction clients arbitrary: tr)
  case Nil
  show ?case by simp
next
  case (Cons entry clients)
  obtain clusterName cl where entry: "entry = (clusterName, cl)" by (cases entry)
  from Cons.prems entry have
    "w tr (GetImageStreamTag cl (req_Namespace req) (req_Name req)) = Failed NotFound"
    by simp
  moreover from Cons.prems have
    "gatherTags w req clients isTags (tr @ [GetImageStreamTag cl (req_Namespace req) (req_Name req)]) =
       (Returned (Inr isTags),
        (tr @ [GetImageStreamTag cl (req_Namespace req) (req_Name req)])
          @ map (\<lambda>e. GetImageStreamTag (snd e) (req_Namespace req) (req_Name req)) clients)"
    by (intro Cons.IH) simp
  ultimately show ?case using entry by (simp add: errorOf_def)
qed

lemma reconcile_no_source:
  assumes "split (req_Name req) CHR '':'' = [imageStreamName, imageTag]"
    and "gatherTags w req (rangeOver (gatherOrder sched) (registryClients r)) [] tr
           = (Returned (Inr isTags), tr')"
    and "findNewest (rangeOver (newestOrder sched) isTags) = []"
  shows "reconcile w api sched r req tr = (Returned None, tr')"
  using assms by (simp add: reconcile_def)

text \<open>
  In read-only mode \<^verbatim>\<open>reconcile\<close> never sends an import, whatever the clusters answer and
  in whatever order they are visited.
\<close>

lemma sends_refl [simp]: "sends P tr tr"
  by (simp add: sends_def)

lemma sends_append: "sends P tr (tr @ calls) = list_all P calls"
  by (simp add: sends_def)

lemma sends_iff: "sends P tr tr' = (\<exists>calls. tr' = tr @ calls \<and> list_all P calls)"
  by (metis append_eq_conv_conj append_take_drop_id sends_def)

lemma sends_trans: "sends P a b \<Longrightarrow> sends P b c \<Longrightarrow> sends P a c"
  by (auto simp: sends_iff)

lemma sends_invoke: "(\<And>c. P (mk c)) \<Longrightarrow> sends P tr (snd (invoke w cl mk tr))"
  by (cases cl) (simp_all add: sends_append)

lemma sends_andThen:
  assumes "sends P tr (snd m)" and "\<And>x t. sends P t (snd (f x t))"
  shows "sends P tr (snd (andThen m f))"
proof (cases m)
  case (Pair res t)
  with assms show ?thesis
    by (cases res) (auto intro: sends_trans)
qed

lemma isImport_simps [simp]:
  "\<not> isImport (GetImageStream cl ns name)"
  "\<not> isImport (GetImageStreamTag cl ns name)"
  "\<not> isImport (GetNamespace cl ns)"
  "\<not> isImport (CreateNamespace cl ns annotations)"
  "\<not> isImport (CreateImageStream cl stream)"
  "\<not> isImport (UpdateImageStream cl stream)"
  "\<not> isImport (UpdateImageStreamTag cl tag)"
  "\<not> isImport (PatchImageStream cl stream)"
  "\<not> isImport (DeleteImageStream cl stream)"
  "\<not> isImport (CreateOrUpdateImageStream cl stream)"
  "\<not> isImport (CreateOrUpdateSecret cl secret)"
  "isImport (CreateImageStreamImport cl imp)"
  "\<not> isImport (RunPod pod)"
  by (simp_all add: isImport_def)

lemma sends_pollImageStream:
  "sends (\<lambda>c. \<not> isImport c) tr (snd (pollImageStream w cl clusterName ns name n tr))"
proof (induction n arbitrary: tr)
  case 0
  show ?case by simp
next
  case (Suc n)
  show ?case
    by (auto simp del: invoke_Some invoke_None andThen_Returned
        intro!: sends_andThen sends_invoke Suc.IH split: option.split)
qed

lemma sends_syncCluster:
  assumes "readOnly r"
  shows "sends (\<lambda>c. \<not> isImport c) tr
    (snd (syncCluster w api polls r req imageStreamName imageTag isTags srcClusterName
       sourceImageStreamTag sourceImageStream clusterName cl tr))"
  unfolding syncCluster_def using assms
  by (auto simp: Let_def simp del: invoke_Some invoke_None andThen_Returned
      intro!: sends_andThen sends_invoke sends_pollImageStream
      split: option.split sum.split)

lemma sends_syncLoop:
  assumes "readOnly r"
  shows "sends (\<lambda>c. \<not> isImport c) tr
    (snd (syncLoop w api polls r req imageStreamName imageTag isTags srcClusterName
       sourceImageStreamTag sourceImageStream clients tr))"
proof (induction clients arbitrary: tr)
  case Nil
  show ?case by simp
next
  case (Cons entry clients)
  obtain clusterName cl where "entry = (clusterName, cl)" by (cases entry)
  then show ?case
    using assms
    by (auto simp del: invoke_Some invoke_None andThen_Returned
        intro!: sends_andThen sends_syncCluster Cons.IH split: flow.split)
qed

lemma sends_ensureRemoveFinalizer:
  "sends (\<lambda>c. \<not> isImport c) tr (snd (ensureRemoveFinalizer w stream cl tr))"
  unfolding ensureRemoveFinalizer_def
  by (auto simp del: invoke_Some invoke_None andThen_Returned
      intro!: sends_andThen sends_invoke)

lemma sends_ensureFinalizer:
  "sends (\<lambda>c. \<not> isImport c) tr (snd (ensureFinalizer w stream cl tr))"
  unfolding ensureFinalizer_def
  by (auto simp del: invoke_Some invoke_None andThen_Returned
      intro!: sends_andThen sends_invoke)

lemma sends_finalizeLoop:
  "sends (\<lambda>c. \<not> isImport c) tr (snd (finalizeLoop w stream srcClusterName clients tr))"
proof (induction clients arbitrary: tr)
  case Nil
  show ?case by simp
next
  case (Cons entry clients)
  obtain clusterName cl where "entry = (clusterName, cl)" by (cases entry)
  then show ?case
    by (auto simp: Let_def simp del: invoke_Some invoke_None andThen_Returned
        intro!: sends_andThen sends_invoke sends_ensureRemoveFinalizer Cons.IH
        split: option.split)
qed

lemma sends_finalizeIfNeeded:
  "sends (\<lambda>c. \<not> isImport c) tr
     (snd (finalizeIfNeeded w order stream srcClusterName clients tr))"
  unfolding finalizeIfNeeded_def
  by (auto simp del: invoke_Some invoke_None andThen_Returned
      intro!: sends_andThen sends_finalizeLoop sends_ensureRemoveFinalizer
      split: option.split)

lemma sends_gatherTags:
  "sends (\<lambda>c. \<not> isImport c) tr (snd (gatherTags w req clients isTags tr))"
proof (induction clients arbitrary: isTags tr)
  case Nil
  show ?case by simp
next
  case (Cons entry clients)
  obtain clusterName cl where "entry = (clusterName, cl)" by (cases entry)
  then show ?case
    by (auto simp del: invoke_Some invoke_None andThen_Returned
        intro!: sends_andThen sends_invoke Cons.IH split: option.split)
qed

lemma sends_syncFromSource:
  assumes "readOnly r"
  shows "sends (\<lambda>c. \<not> isImport c) tr
    (snd (syncFromSource w api sched r req imageStreamName imageTag isTags srcClusterName tr))"
  unfolding syncFromSource_def using assms
  by (auto simp: Let_def simp del: invoke_Some invoke_None andThen_Returned
      intro!: sends_andThen sends_invoke sends_finalizeIfNeeded sends_ensureFinalizer
        sends_syncLoop
      split: option.split)

lemma reconcile_read_only_no_import:
  assumes "readOnly r"
  shows "sends (\<lambda>c. \<not> isImport c) tr (snd (reconcile w api sched r req tr))"
  unfolding reconcile_def using assms
  by (auto simp: Let_def simp del: invoke_Some invoke_None andThen_Returned
      intro!: sends_andThen sends_gatherTags sends_syncFromSource
      split: list.split sum.split)

section \<open>Claims about getPublicImageReference\<close>

text \<open>
  Claim C8. The reference
  \<^verbatim>\<open>docker-registry.default.svc:5000/ci-op-bgqwwknr/pipeline@sha256:<d>\<close>, for every digest
  \<open>d\<close>, with the public repository \<^verbatim>\<open>registry.svc.ci.openshift.org/ci-op-bgqwwknr/pipeline\<close>
  becomes \<^verbatim>\<open>registry.svc.ci.openshift.org/ci-op-bgqwwknr/pipeline@sha256:<d>\<close>: the internal
  host and port are replaced by the public host name. A reference that does not contain
  \<^verbatim>\<open>:5000\<close> is returned as it is, whatever the public repository.
\<close>

theorem getPublicImageReference_public:
  "(\<forall>d. getPublicImageReference
          (''docker-registry.default.svc:5000/ci-op-bgqwwknr/pipeline@sha256:'' @ d)
          ''registry.svc.ci.openshift.org/ci-op-bgqwwknr/pipeline''
        = ''registry.svc.ci.openshift.org/ci-op-bgqwwknr/pipeline@sha256:'' @ d)
   \<and> (\<forall>ref repo. \<not> contains ref '':5000'' \<longrightarrow> getPublicImageReference ref repo = ref)"
proof (intro conjI allI impI)
  fix d :: string
  have "contains (''docker-registry.default.svc:5000/ci-op-bgqwwknr/pipeline@sha256:'' @ d)
          '':5000''"
    by (simp add: contains_def)
  then show "getPublicImageReference
          (''docker-registry.default.svc:5000/ci-op-bgqwwknr/pipeline@sha256:'' @ d)
          ''registry.svc.ci.openshift.org/ci-op-bgqwwknr/pipeline''
        = ''registry.svc.ci.openshift.org/ci-op-bgqwwknr/pipeline@sha256:'' @ d"
    by (simp add: getPublicImageReference_eq)
next
  fix ref repo :: string
  assume "\<not> contains ref '':5000''"
  then show "getPublicImageReference ref repo = ref"
    by (simp add: getPublicImageReference_def)
qed

theorem getPublicImageReference_public_witness:
  "\<not> contains ''quay.io/openshift/origin:latest'' '':5000''
   \<and> getPublicImageReference ''quay.io/openshift/origin:latest''
        ''registry.svc.ci.openshift.org/ci-op-bgqwwknr/pipeline''
      = ''quay.io/openshift/origin:latest''
   \<and> getPublicImageReference
        ''docker-registry.default.svc:5000/ci-op-bgqwwknr/pipeline@sha256:d8385fb539f4''
        ''registry.svc.ci.openshift.org/ci-op-bgqwwknr/pipeline''
      = ''registry.svc.ci.openshift.org/ci-op-bgqwwknr/pipeline@sha256:d8385fb539f4''"
proof -
  have h: "\<not> contains ''quay.io/openshift/origin:latest'' '':5000''"
    by (simp add: contains_def)
  from getPublicImageReference_public have
    a: "getPublicImageReference
          (''docker-registry.default.svc:5000/ci-op-bgqwwknr/pipeline@sha256:'' @ ''d8385fb539f4'')
          ''registry.svc.ci.openshift.org/ci-op-bgqwwknr/pipeline''
        = ''registry.svc.ci.openshift.org/ci-op-bgqwwknr/pipeline@sha256:'' @ ''d8385fb539f4''"
    and b: "\<not> contains ''quay.io/openshift/origin:latest'' '':5000'' \<longrightarrow>
        getPublicImageReference ''quay.io/openshift/origin:latest''
          ''registry.svc.ci.openshift.org/ci-op-bgqwwknr/pipeline''
        = ''quay.io/openshift/origin:latest''"
    by blast+
  from a b h show ?thesis by simp
qed

section \<open>Claims about toPromote and PromotedTags\<close>



text \<open>
  Claim C7. With promotion configuration \<open>{Namespace: "roger", Name: "fred"}\<close> and the one
  image \<open>foo\<close>, \<^verbatim>\<open>PromotedTags\<close> is exactly \<open>[{roger, fred, foo}]\<close>; with
  \<open>{Namespace: "roger", Tag: "fred"}\<close> it is exactly \<open>[{roger, foo, fred}]\<close>; without a
  promotion configuration it is nil, whatever the images.
\<close>

theorem PromotedTags_examples:
  "PromotedTags
     \<lparr>Images = [\<lparr>To = ''foo'', Optional = False\<rparr>],
      PromotionConfiguration = Some
        \<lparr>Namespace = ''roger'', Name = ''fred'', Tag = [], NamePrefix = [],
         ExcludedImages = [], AdditionalImages = [], Disabled = False\<rparr>\<rparr>
     = [\<lparr>ref_Namespace = ''roger'', ref_Name = ''fred'', ref_Tag = ''foo''\<rparr>]
   \<and> PromotedTags
     \<lparr>Images = [\<lparr>To = ''foo'', Optional = False\<rparr>],
      PromotionConfiguration = Some
        \<lparr>Namespace = ''roger'', Name = [], Tag = ''fred'', NamePrefix = [],
         ExcludedImages = [], AdditionalImages = [], Disabled = False\<rparr>\<rparr>
     = [\<lparr>ref_Namespace = ''roger'', ref_Name = ''foo'', ref_Tag = ''fred''\<rparr>]
   \<and> (\<forall>images. PromotedTags \<lparr>Images = images, PromotionConfiguration = None\<rparr> = [])"
  by (simp add: PromotedTags_def toPromote_def tagsBeforePrefix_def includeImages_def Let_def)

section \<open>Claims about getPromotionPod\<close>

text \<open>
  Claim C6. For every mirror mapping \<open>M\<close> (a Go map, so without repeated keys) and
  namespace \<open>N\<close>, the pod of \<^verbatim>\<open>getPromotionPod\<close> is named \<open>promotion\<close> in \<open>N\<close>, never
  restarts, has the one container \<open>promotion\<close> with the one mount of \<open>push-secret\<close> at
  \<^verbatim>\<open>/etc/push-secret\<close>, read-only, and the one volume \<open>push-secret\<close>; the container's
  arguments are the mirror commands for the keys of \<open>M\<close> in ascending order, joined by
  \<^verbatim>\<open> && \<close>. The pod does not depend on the order of the entries of \<open>M\<close>.
\<close>

theorem getPromotionPod_layout:
  assumes "distinct (map fst M)"
  shows "pod_Name (getPromotionPod secret M N) = ''promotion''
    \<and> pod_Namespace (getPromotionPod secret M N) = N
    \<and> pod_RestartPolicy (getPromotionPod secret M N) = RestartPolicyNever
    \<and> map ctr_Name (pod_Containers (getPromotionPod secret M N)) = [''promotion'']
    \<and> map ctr_VolumeMounts (pod_Containers (getPromotionPod secret M N))
        = [[\<lparr>vm_Name = ''push-secret'', vm_MountPath = ''/etc/push-secret'', vm_ReadOnly = True\<rparr>]]
    \<and> map vol_Name (pod_Volumes (getPromotionPod secret M N)) = [''push-secret'']
    \<and> map ctr_Args (pod_Containers (getPromotionPod secret M N))
        = [[join (map (mirrorCommand_spec (map_of M)) (sorted_list_of_set (dom (map_of M)))) '' && '']]
    \<and> (\<forall>M'. distinct (map fst M') \<and> map_of M' = map_of M \<longrightarrow>
          getPromotionPod secret M' N = getPromotionPod secret M N)"
proof -
  have cmds: "map (\<lambda>k. ''oc image mirror --registry-config=''
                       @ filepath_Join RegistryPushCredentialsCICentralSecretMountPath
                           DockerConfigJsonKey
                       @ '' '' @ k @ '' '' @ mapIndex X k) (sort (map fst X))
      = map (mirrorCommand_spec (map_of X)) (sorted_list_of_set (dom (map_of X)))"
    if "distinct (map fst X)" for X
  proof -
    have "finite (dom (map_of X))" by (simp add: finite_dom_map_of)
    then have "set (sorted_list_of_set (dom (map_of X))) = dom (map_of X)" by simp
    then show ?thesis
      using that
      by (simp add: sort_keys mirrorCommand_spec_def mapIndex_the filepath_Join_def
          RegistryPushCredentialsCICentralSecretMountPath_def DockerConfigJsonKey_def
          cong: map_cong)
  qed
  have pod: "getPromotionPod secret X N =
      \<lparr>pod_Name = ''promotion'', pod_Namespace = N, pod_RestartPolicy = RestartPolicyNever,
       pod_Containers =
         [\<lparr>ctr_Name = ''promotion'',
           ctr_Image = DomainForService_ServiceRegistry @ ''/ocp/4.6:cli'',
           ctr_Command = [''/bin/sh'', ''-c''],
           ctr_Args = [join (map (mirrorCommand_spec (map_of X))
                              (sorted_list_of_set (dom (map_of X)))) '' && ''],
           ctr_VolumeMounts =
             [\<lparr>vm_Name = ''push-secret'', vm_MountPath = ''/etc/push-secret'',
               vm_ReadOnly = True\<rparr>]\<rparr>],
       pod_Volumes = [\<lparr>vol_Name = ''push-secret'', vol_SecretName = secret\<rparr>]\<rparr>"
    if "distinct (map fst X)" for X
    unfolding getPromotionPod_def Let_def cmds[OF that] ..
  have "getPromotionPod secret M' N = getPromotionPod secret M N"
    if "distinct (map fst M')" "map_of M' = map_of M" for M'
    using that assms by (simp add: pod)
  then show ?thesis
    using assms by (simp add: pod)
qed

theorem getPromotionPod_layout_witness:
  "distinct (map fst
      [(''docker-registry.default.svc:5000/ci-op-y2n8rsh3/pipeline@sha256:bbb'',
        ''registy.ci.openshift.org/ci/bin:latest''),
       (''docker-registry.default.svc:5000/ci-op-y2n8rsh3/pipeline@sha256:afd71aa3'',
        ''registy.ci.openshift.org/ci/applyconfig:latest'')])
   \<and> map ctr_Args (pod_Containers (getPromotionPod ''secret''
      [(''docker-registry.default.svc:5000/ci-op-y2n8rsh3/pipeline@sha256:bbb'',
        ''registy.ci.openshift.org/ci/bin:latest''),
       (''docker-registry.default.svc:5000/ci-op-y2n8rsh3/pipeline@sha256:afd71aa3'',
        ''registy.ci.openshift.org/ci/applyconfig:latest'')]
      ''ci-op-zyvwvffx''))
    = [[''oc image mirror --registry-config=/etc/push-secret/.dockerconfigjson docker-registry.default.svc:5000/ci-op-y2n8rsh3/pipeline@sha256:afd71aa3 registy.ci.openshift.org/ci/applyconfig:latest && oc image mirror --registry-config=/etc/push-secret/.dockerconfigjson docker-registry.default.svc:5000/ci-op-y2n8rsh3/pipeline@sha256:bbb registy.ci.openshift.org/ci/bin:latest'']]
   \<and> getPromotionPod ''secret''
      [(''docker-registry.default.svc:5000/ci-op-y2n8rsh3/pipeline@sha256:afd71aa3'',
        ''registy.ci.openshift.org/ci/applyconfig:latest''),
       (''docker-registry.default.svc:5000/ci-op-y2n8rsh3/pipeline@sha256:bbb'',
        ''registy.ci.openshift.org/ci/bin:latest'')]
      ''ci-op-zyvwvffx''
     = getPromotionPod ''secret''
      [(''docker-registry.default.svc:5000/ci-op-y2n8rsh3/pipeline@sha256:bbb'',
        ''registy.ci.openshift.org/ci/bin:latest''),
       (''docker-registry.default.svc:5000/ci-op-y2n8rsh3/pipeline@sha256:afd71aa3'',
        ''registy.ci.openshift.org/ci/applyconfig:latest'')]
      ''ci-op-zyvwvffx''"
proof -
  let ?M = "[(''docker-registry.default.svc:5000/ci-op-y2n8rsh3/pipeline@sha256:bbb'',
        ''registy.ci.openshift.org/ci/bin:latest''),
       (''docker-registry.default.svc:5000/ci-op-y2n8rsh3/pipeline@sha256:afd71aa3'',
        ''registy.ci.openshift.org/ci/applyconfig:latest'')]"
  let ?M' = "[(''docker-registry.default.svc:5000/ci-op-y2n8rsh3/pipeline@sha256:afd71aa3'',
        ''registy.ci.openshift.org/ci/applyconfig:latest''),
       (''docker-registry.default.svc:5000/ci-op-y2n8rsh3/pipeline@sha256:bbb'',
        ''registy.ci.openshift.org/ci/bin:latest'')]"
  have d: "distinct (map fst ?M)" by simp
  have s: "sorted_list_of_set (dom (map_of ?M)) = sort (map fst ?M)"
    by (rule sort_keys [OF d, symmetric])
  have t: "sort (map fst ?M) =
    [''docker-registry.default.svc:5000/ci-op-y2n8rsh3/pipeline@sha256:afd71aa3'',
     ''docker-registry.default.svc:5000/ci-op-y2n8rsh3/pipeline@sha256:bbb'']"
    by simp
  have "map ctr_Args (pod_Containers (getPromotionPod ''secret'' ?M ''ci-op-zyvwvffx''))
        = [[join (map (mirrorCommand_spec (map_of ?M)) (sorted_list_of_set (dom (map_of ?M)))) '' && '']]"
    using getPromotionPod_layout [OF d, of "''secret''" "''ci-op-zyvwvffx''"] by blast
  then have "map ctr_Args (pod_Containers (getPromotionPod ''secret'' ?M ''ci-op-zyvwvffx''))
        = [[join (map (mirrorCommand_spec (map_of ?M))
    [''docker-registry.default.svc:5000/ci-op-y2n8rsh3/pipeline@sha256:afd71aa3'',
     ''docker-registry.default.svc:5000/ci-op-y2n8rsh3/pipeline@sha256:bbb'']) '' && '']]"
    by (simp only: s t)
  then have "map ctr_Args (pod_Containers (getPromotionPod ''secret'' ?M ''ci-op-zyvwvffx''))
        = [[''oc image mirror --registry-config=/etc/push-secret/.dockerconfigjson docker-registry.default.svc:5000/ci-op-y2n8rsh3/pipeline@sha256:afd71aa3 registy.ci.openshift.org/ci/applyconfig:latest && oc image mirror --registry-config=/etc/push-secret/.dockerconfigjson docker-registry.default.svc:5000/ci-op-y2n8rsh3/pipeline@sha256:bbb registy.ci.openshift.org/ci/bin:latest'']]"
    by (simp add: mirrorCommand_spec_def)
  moreover have "getPromotionPod ''secret'' ?M' ''ci-op-zyvwvffx''
      = getPromotionPod ''secret'' ?M ''ci-op-zyvwvffx''"
  proof -
    have "distinct (map fst ?M') \<and> map_of ?M' = map_of ?M"
      by (auto simp: fun_eq_iff)
    with getPromotionPod_layout [OF d, of "''secret''" "''ci-op-zyvwvffx''"]
    show ?thesis by blast
  qed
  ultimately show ?thesis using d by blast
qed

section \<open>Claims about run\<close>

text \<open>
  Claim C4. \<^verbatim>\<open>run\<close> returns the error \<^verbatim>\<open>image-creator client is nil\<close> precisely when it is
  in the branch taken for a push secret (there is something to promote, the pipeline image
  stream was fetched, and the push secret is present) and the image-creator client is not
  nil. In that branch with a nil client, \<^verbatim>\<open>run\<close> goes on to ensure the destination
  namespace and calls \<^verbatim>\<open>Get\<close> on the nil client, which panics before any further call is
  sent.
\<close>

theorem push_secret_branch_nil_check:
  "(fst (run w F n s tr) = Returned (Some (Errorf ''image-creator client is nil'' None)))
     = (snd (toPromote (config s) (images s) (requiredImages s)) \<noteq> {}
        \<and> (\<exists>c. srcClient s = Some c
              \<and> errorOf (w tr (GetImageStream c (jobSpec_Namespace s) PipelineImageStream))
                  = None)
        \<and> pushSecret s \<noteq> None
        \<and> imageCreatorClient s \<noteq> None)
   \<and> (snd (toPromote (config s) (images s) (requiredImages s)) \<noteq> {}
        \<and> srcClient s = Some c
        \<and> errorOf (w tr (GetImageStream c (jobSpec_Namespace s) PipelineImageStream)) = None
        \<and> pushSecret s \<noteq> None
        \<and> imageCreatorClient s = None \<longrightarrow>
      run w F n s tr
        = (Panicked, tr @ [GetImageStream c (jobSpec_Namespace s) PipelineImageStream]))"
proof (intro conjI impI)
  show "(fst (run w F n s tr) = Returned (Some (Errorf ''image-creator client is nil'' None)))
     = (snd (toPromote (config s) (images s) (requiredImages s)) \<noteq> {}
        \<and> (\<exists>c. srcClient s = Some c
              \<and> errorOf (w tr (GetImageStream c (jobSpec_Namespace s) PipelineImageStream))
                  = None)
        \<and> pushSecret s \<noteq> None
        \<and> imageCreatorClient s \<noteq> None)"
    by (rule run_clientIsNil)
next
  assume "snd (toPromote (config s) (images s) (requiredImages s)) \<noteq> {}
        \<and> srcClient s = Some c
        \<and> errorOf (w tr (GetImageStream c (jobSpec_Namespace s) PipelineImageStream)) = None
        \<and> pushSecret s \<noteq> None
        \<and> imageCreatorClient s = None"
  then show "run w F n s tr
        = (Panicked, tr @ [GetImageStream c (jobSpec_Namespace s) PipelineImageStream])"
    by (auto simp: run_def Let_def runWithPushSecret_def)
qed

theorem push_secret_branch_nil_check_witness:
  "snd (toPromote (config (pushSecretStep (Some ''creator'')))
         (images (pushSecretStep (Some ''creator'')))
         (requiredImages (pushSecretStep (Some ''creator'')))) \<noteq> {}
   \<and> pushSecret (pushSecretStep (Some ''creator'')) \<noteq> None
   \<and> fst (run emptyPipelineWorld (\<lambda>is tag. None) ''push-secret-name''
         (pushSecretStep (Some ''creator'')) [])
       = Returned (Some (Errorf ''image-creator client is nil'' None))
   \<and> run emptyPipelineWorld (\<lambda>is tag. None) ''push-secret-name'' (pushSecretStep None) []
       = (Panicked, [GetImageStream ''build'' ''ci-op-1'' ''pipeline''])"
proof -
  let ?w = emptyPipelineWorld
  let ?F = "\<lambda>(is :: ImageStream) (tag :: string). None :: ObjectReference option"
  have names: "snd (toPromote (config (pushSecretStep cl)) (images (pushSecretStep cl))
      (requiredImages (pushSecretStep cl))) \<noteq> {}" for cl
    by (simp add: pushSecretStep_def toPromote_def tagsBeforePrefix_def includeImages_def Let_def)
  have src: "srcClient (pushSecretStep cl) = Some ''build''" for cl
    by (simp add: pushSecretStep_def)
  have got: "errorOf (?w [] (GetImageStream ''build'' (jobSpec_Namespace (pushSecretStep cl))
      PipelineImageStream)) = None" for cl
    by (simp add: emptyPipelineWorld_def errorOf_def)
  have secret: "pushSecret (pushSecretStep cl) \<noteq> None" for cl
    by (simp add: pushSecretStep_def)
  have nonnil: "imageCreatorClient (pushSecretStep (Some ''creator'')) \<noteq> None"
    by (simp add: pushSecretStep_def)
  have nil: "imageCreatorClient (pushSecretStep None) = None"
    by (simp add: pushSecretStep_def)
  have tr: "[] @ [GetImageStream ''build'' (jobSpec_Namespace (pushSecretStep None))
      PipelineImageStream] = [GetImageStream ''build'' ''ci-op-1'' ''pipeline'']"
    by (simp add: pushSecretStep_def PipelineImageStream_def)
  have a: "fst (run ?w ?F ''push-secret-name'' (pushSecretStep (Some ''creator'')) [])
      = Returned (Some (Errorf ''image-creator client is nil'' None))"
    using push_secret_branch_nil_check
        [where w = ?w and F = ?F and n = "''push-secret-name''"
           and s = "pushSecretStep (Some ''creator'')" and tr = "[]"]
      names [of "Some ''creator''"] src [of "Some ''creator''"] got [of "Some ''creator''"]
      secret [of "Some ''creator''"] nonnil
    by blast
  have "run ?w ?F ''push-secret-name'' (pushSecretStep None) []
      = (Panicked, [] @ [GetImageStream ''build'' (jobSpec_Namespace (pushSecretStep None))
           PipelineImageStream])"
    using push_secret_branch_nil_check
        [where w = ?w and F = ?F and n = "''push-secret-name''"
           and s = "pushSecretStep None" and tr = "[]" and c = "''build''"]
      names [of None] src [of None] got [of None] secret [of None] nil
    by blast
  then have b: "run ?w ?F ''push-secret-name'' (pushSecretStep None) []
      = (Panicked, [GetImageStream ''build'' ''ci-op-1'' ''pipeline''])"
    by (simp only: tr)
  from names [of "Some ''creator''"] secret [of "Some ''creator''"] a b show ?thesis
    by blast
qed

text \<open>
  Claim C5 says that a source tag absent from the status of the pipeline is left out of
  the mirror mapping without an error, and that \<^verbatim>\<open>run\<close> returns nil without a write or a pod
  when the tag mapping or the mirror mapping is empty. The first two hold
  (\<open>mirrorLoop_skips_absent\<close>, \<open>getImageMirrorTarget_all_absent\<close>, \<open>findStatusItems_absent\<close>,
  \<open>run_nothing_to_promote\<close>, \<open>run_empty_tag_mapping\<close>). The
  last does not: the mirror mapping is computed only in the push-secret branch, and that
  branch returns the error \<^verbatim>\<open>image-creator client is nil\<close> for a client that is not nil and
  panics for one that is (\<open>run_push_secret_never_nil\<close>). At the input below the status of the
  pipeline has no tag, so the mirror mapping is empty, and \<^verbatim>\<open>run\<close> returns the error or
  panics.
\<close>

theorem run_empty_mirror_mapping_not_nil:
  "getImageMirrorTarget emptyPipelineWorld (Some ''creator'')
       (config (pushSecretStep (Some ''creator'')))
       (fst (toPromote (config (pushSecretStep (Some ''creator'')))
              (images (pushSecretStep (Some ''creator''))) {}))
       (Some (emptyImageStream\<lparr>is_Namespace := ''ci-op-1'', is_Name := ''pipeline''\<rparr>))
       [GetImageStream ''build'' ''ci-op-1'' ''pipeline'']
     = (Returned [], [GetImageStream ''build'' ''ci-op-1'' ''pipeline''])
   \<and> run emptyPipelineWorld (\<lambda>is tag. None) ''push-secret-name''
         (pushSecretStep (Some ''creator'')) []
       = (Returned (Some (Errorf ''image-creator client is nil'' None)),
          [GetImageStream ''build'' ''ci-op-1'' ''pipeline''])
   \<and> run emptyPipelineWorld (\<lambda>is tag. None) ''push-secret-name'' (pushSecretStep None) []
       = (Panicked, [GetImageStream ''build'' ''ci-op-1'' ''pipeline''])"
  by (simp add: run_def runWithPushSecret_def getImageMirrorTarget_def
      findDockerImageReference_def emptyImageStream_def pushSecretStep_def
      emptyPipelineWorld_def toPromote_def tagsBeforePrefix_def includeImages_def Let_def
      errorOf_def imageStreamOf_def PipelineImageStream_def)

section \<open>Claims about the registry syncer\<close>

text \<open>
  Claim C2, as stated, says that \<^verbatim>\<open>findNewest\<close> returns the cluster whose tag has the latest
  creation time for every map of gathered tags. It does not when no creation time is after
  the zero time: the running maximum starts at the zero time and only a strictly later
  time replaces it, so the result is the empty string.
\<close>

theorem findNewest_zero_timestamp_counterexample:
  "findNewest [(''api.ci'', tagAt ''sha256:aaa'' 0)] = []
   \<and> findNewest [(''api.ci'', tagAt ''sha256:aaa'' 0)] \<noteq> ''api.ci''"
  by (simp add: findNewest_def newer_def created_def tagAt_def)

text \<open>
  Claim C2, amended. For every map of gathered tags in which some creation time is after
  the zero time, in whatever order it is visited, \<^verbatim>\<open>findNewest\<close> returns a cluster whose tag
  has the latest creation time; for tags on \<open>A\<close> and \<open>B\<close> created at \<open>tA < tB\<close>, with \<open>tB\<close>
  after the zero time, it returns \<open>B\<close> in both orders. When the request names
  \<^verbatim>\<open>stream:tag\<close> and every cluster answers not-found for the tag, \<^verbatim>\<open>reconcile\<close> returns nil
  and has sent nothing but the reads of the tag, one to each cluster.
\<close>

theorem findNewest_selects_latest:
  "((\<exists>e\<in>set isTags. 0 < created (snd e)) \<longrightarrow>
      (\<exists>e\<in>set isTags. findNewest isTags = fst e
         \<and> (\<forall>e'\<in>set isTags. created (snd e') \<le> created (snd e))))
   \<and> (created a < created b \<and> 0 < created b \<longrightarrow>
        findNewest [(A, a), (B, b)] = B \<and> findNewest [(B, b), (A, a)] = B)
   \<and> (split (req_Name req) CHR '':'' = [imageStreamName, imageTag]
        \<and> (\<forall>e\<in>set (registryClients r). \<forall>t.
              w t (GetImageStreamTag (snd e) (req_Namespace req) (req_Name req))
                = Failed NotFound) \<longrightarrow>
      reconcile w api sched r req tr =
        (Returned None,
         tr @ map (\<lambda>e. GetImageStreamTag (snd e) (req_Namespace req) (req_Name req))
                (rangeOver (gatherOrder sched) (registryClients r))))"
proof (intro conjI impI)
  assume "\<exists>e\<in>set isTags. 0 < created (snd e)"
  then show "\<exists>e\<in>set isTags. findNewest isTags = fst e
         \<and> (\<forall>e'\<in>set isTags. created (snd e') \<le> created (snd e))"
    by (rule findNewest_latest)
next
  assume "created a < created b \<and> 0 < created b"
  then show "findNewest [(A, a), (B, b)] = B"
    by (simp add: findNewest_def newer_def)
next
  assume "created a < created b \<and> 0 < created b"
  then show "findNewest [(B, b), (A, a)] = B"
    by (simp add: findNewest_def newer_def)
next
  assume h: "split (req_Name req) CHR '':'' = [imageStreamName, imageTag]
        \<and> (\<forall>e\<in>set (registryClients r). \<forall>t.
              w t (GetImageStreamTag (snd e) (req_Namespace req) (req_Name req))
                = Failed NotFound)"
  let ?clients = "rangeOver (gatherOrder sched) (registryClients r)"
  from h have "\<forall>e\<in>set ?clients. \<forall>t.
      w t (GetImageStreamTag (snd e) (req_Namespace req) (req_Name req)) = Failed NotFound"
    using rangeOver_subset by blast
  then have "gatherTags w req ?clients [] tr =
      (Returned (Inr []),
       tr @ map (\<lambda>e. GetImageStreamTag (snd e) (req_Namespace req) (req_Name req)) ?clients)"
    by (rule gatherTags_all_not_found)
  moreover have "findNewest (rangeOver (newestOrder sched) []) = []"
    by (simp add: findNewest_def)
  ultimately show "reconcile w api sched r req tr =
        (Returned None,
         tr @ map (\<lambda>e. GetImageStreamTag (snd e) (req_Namespace req) (req_Name req)) ?clients)"
    using h by (intro reconcile_no_source) auto
qed

theorem findNewest_selects_latest_witness:
  "created (tagAt ''sha256:aaa'' 3) < created (tagAt ''sha256:bbb'' 5)
   \<and> 0 < created (tagAt ''sha256:bbb'' 5)
   \<and> findNewest [(''api.ci'', tagAt ''sha256:aaa'' 3), (''app.ci'', tagAt ''sha256:bbb'' 5)]
        = ''app.ci''
   \<and> findNewest [(''app.ci'', tagAt ''sha256:bbb'' 5), (''api.ci'', tagAt ''sha256:aaa'' 3)]
        = ''app.ci''
   \<and> findNewest [(''api.ci'', tagAt ''sha256:aaa'' 3), (''app.ci'', tagAt ''sha256:bbb'' 5),
                  (''build01'', tagAt ''sha256:ccc'' 4)]
        \<in> {''api.ci'', ''app.ci'', ''build01''}
   \<and> reconcile (tagOnWorld [] ''sha256:aaa'' 5) exampleApi
        (inOrder [''api.ci'', ''app.ci'', ''build01'']) (threeClusterReconciler False)
        exampleRequest []
      = (Returned None,
         [GetImageStreamTag ''api.ci'' ''ci'' ''tool:latest'',
          GetImageStreamTag ''app.ci'' ''ci'' ''tool:latest'',
          GetImageStreamTag ''build01'' ''ci'' ''tool:latest''])"
proof -
  let ?a = "tagAt ''sha256:aaa'' 3" and ?b = "tagAt ''sha256:bbb'' 5"
  let ?w = "tagOnWorld [] ''sha256:aaa'' 5"
  let ?r = "threeClusterReconciler False"
  let ?s = "inOrder [''api.ci'', ''app.ci'', ''build01'']"
  have lt: "created ?a < created ?b \<and> 0 < created ?b"
    by (simp add: created_def tagAt_def)
  have name: "split (req_Name exampleRequest) CHR '':'' = [''tool'', ''latest'']"
    by code_simp
  have none: "\<forall>e\<in>set (registryClients ?r). \<forall>t.
      ?w t (GetImageStreamTag (snd e) (req_Namespace exampleRequest) (req_Name exampleRequest))
        = Failed NotFound"
    by (simp add: tagOnWorld_def)
  have order: "map (\<lambda>e. GetImageStreamTag (snd e) (req_Namespace exampleRequest)
        (req_Name exampleRequest)) (rangeOver (gatherOrder ?s) (registryClients ?r))
      = [GetImageStreamTag ''api.ci'' ''ci'' ''tool:latest'',
         GetImageStreamTag ''app.ci'' ''ci'' ''tool:latest'',
         GetImageStreamTag ''build01'' ''ci'' ''tool:latest'']"
    by code_simp
  note inst = findNewest_selects_latest
    [where a = ?a and b = ?b and A = "''api.ci''" and B = "''app.ci''"
       and req = exampleRequest and imageStreamName = "''tool''" and imageTag = "''latest''"
       and r = ?r and w = ?w and api = exampleApi and sched = ?s and tr = "[]"]
  let ?three = "[(''api.ci'', ?a), (''app.ci'', ?b), (''build01'', tagAt ''sha256:ccc'' 4)]"
  have "\<exists>e\<in>set ?three. 0 < created (snd e)"
    using lt by simp
  with findNewest_selects_latest [where isTags = ?three]
  have "\<exists>e\<in>set ?three. findNewest ?three = fst e
      \<and> (\<forall>e'\<in>set ?three. created (snd e') \<le> created (snd e))"
    by blast
  then have member: "findNewest ?three \<in> {''api.ci'', ''app.ci'', ''build01''}"
    by auto
  from inst lt have "findNewest [(''api.ci'', ?a), (''app.ci'', ?b)] = ''app.ci''"
    and "findNewest [(''app.ci'', ?b), (''api.ci'', ?a)] = ''app.ci''"
    by blast+
  moreover note member
  moreover from inst name none have "reconcile ?w exampleApi ?s ?r exampleRequest [] =
      (Returned None,
       [] @ map (\<lambda>e. GetImageStreamTag (snd e) (req_Namespace exampleRequest)
              (req_Name exampleRequest)) (rangeOver (gatherOrder ?s) (registryClients ?r)))"
    by blast
  ultimately show ?thesis using lt by (simp only: order append_Nil simp_thms)
qed

text \<open>
  Claim C10. If the image of every gathered tag carries the zero creation time,
  \<^verbatim>\<open>findNewest\<close> returns the empty string, in whatever order the tags are visited. So when
  the request names \<^verbatim>\<open>stream:tag\<close> and the tags were gathered without an error,
  \<^verbatim>\<open>reconcile\<close> returns nil right after the gathering: the calls it has sent are the reads of
  the tag and nothing else, even when the tag is on some cluster.
\<close>

theorem findNewest_zero_timestamps:
  "((\<forall>e\<in>set isTags. created (snd e) = 0) \<longrightarrow> findNewest isTags = [])
   \<and> (split (req_Name req) CHR '':'' = [imageStreamName, imageTag]
        \<and> gatherTags w req (rangeOver (gatherOrder sched) (registryClients r)) [] tr
             = (Returned (Inr gathered), tr')
        \<and> (\<forall>e\<in>set gathered. created (snd e) = 0) \<longrightarrow>
      reconcile w api sched r req tr = (Returned None, tr')
        \<and> (\<exists>reads. tr' = tr @ reads \<and> list_all isTagRead reads))"
proof (intro conjI impI)
  assume "\<forall>e\<in>set isTags. created (snd e) = 0"
  then show "findNewest isTags = []"
    by (intro findNewest_none_after_zero) simp
next
  assume h: "split (req_Name req) CHR '':'' = [imageStreamName, imageTag]
        \<and> gatherTags w req (rangeOver (gatherOrder sched) (registryClients r)) [] tr
             = (Returned (Inr gathered), tr')
        \<and> (\<forall>e\<in>set gathered. created (snd e) = 0)"
  then have "\<forall>e\<in>set (rangeOver (newestOrder sched) gathered). created (snd e) \<le> 0"
    using rangeOver_subset by fastforce
  then have "findNewest (rangeOver (newestOrder sched) gathered) = []"
    by (rule findNewest_none_after_zero)
  with h show "reconcile w api sched r req tr = (Returned None, tr')"
    by (intro reconcile_no_source) auto
next
  assume "split (req_Name req) CHR '':'' = [imageStreamName, imageTag]
        \<and> gatherTags w req (rangeOver (gatherOrder sched) (registryClients r)) [] tr
             = (Returned (Inr gathered), tr')
        \<and> (\<forall>e\<in>set gathered. created (snd e) = 0)"
  then show "\<exists>reads. tr' = tr @ reads \<and> list_all isTagRead reads"
    using gatherTags_reads by blast
qed

theorem findNewest_zero_timestamps_witness:
  "created (tagAt ''sha256:aaa'' 0) = 0
   \<and> findNewest [(''api.ci'', tagAt ''sha256:aaa'' 0), (''app.ci'', tagAt ''sha256:aaa'' 0)] = []
   \<and> reconcile (tagOnWorld [''api.ci'', ''app.ci''] ''sha256:aaa'' 0) exampleApi
        (inOrder [''api.ci'', ''app.ci'', ''build01'']) (threeClusterReconciler False)
        exampleRequest []
      = (Returned None,
         [GetImageStreamTag ''api.ci'' ''ci'' ''tool:latest'',
          GetImageStreamTag ''app.ci'' ''ci'' ''tool:latest'',
          GetImageStreamTag ''build01'' ''ci'' ''tool:latest''])"
proof -
  let ?t = "tagAt ''sha256:aaa'' 0"
  let ?tags = "[(''api.ci'', ?t), (''app.ci'', ?t)]"
  let ?w = "tagOnWorld [''api.ci'', ''app.ci''] ''sha256:aaa'' 0"
  let ?r = "threeClusterReconciler False"
  let ?s = "inOrder [''api.ci'', ''app.ci'', ''build01'']"
  let ?reads = "[GetImageStreamTag ''api.ci'' ''ci'' ''tool:latest'',
          GetImageStreamTag ''app.ci'' ''ci'' ''tool:latest'',
          GetImageStreamTag ''build01'' ''ci'' ''tool:latest'']"
  have zero: "created ?t = 0" by (simp add: created_def tagAt_def)
  then have all: "\<forall>e\<in>set ?tags. created (snd e) = 0" by simp
  have name: "split (req_Name exampleRequest) CHR '':'' = [''tool'', ''latest'']"
    by code_simp
  have gather: "gatherTags ?w exampleRequest (rangeOver (gatherOrder ?s) (registryClients ?r))
      [] [] = (Returned (Inr ?tags), ?reads)"
    by code_simp
  note inst = findNewest_zero_timestamps
    [where isTags = ?tags and gathered = ?tags and req = exampleRequest
       and imageStreamName = "''tool''" and imageTag = "''latest''" and w = ?w and sched = ?s
       and r = ?r and tr = "[]" and tr' = ?reads and api = exampleApi]
  from inst all have "findNewest ?tags = []" by blast
  moreover from inst name gather all
  have "reconcile ?w exampleApi ?s ?r exampleRequest [] = (Returned None, ?reads)"
    by blast
  ultimately show ?thesis using zero by blast
qed

text \<open>
  Claim C3 says that, with three or more clusters, a cluster that already holds the image
  of the source is the only one skipped, and the clusters after it are still synced. In
  the source the test of lines 280 to 284 ends with \<^verbatim>\<open>return nil\<close>, not \<^verbatim>\<open>continue\<close>. Here
  the tag is on \<^verbatim>\<open>api.ci\<close> (the source) and, with the same image, on \<^verbatim>\<open>app.ci\<close>, while
  \<^verbatim>\<open>build01\<close> lacks it. When the loop visits \<^verbatim>\<open>app.ci\<close> before \<^verbatim>\<open>build01\<close>, \<^verbatim>\<open>reconcile\<close>
  returns nil at \<^verbatim>\<open>app.ci\<close> and \<^verbatim>\<open>build01\<close> receives nothing but the read of the tag; when it
  visits \<^verbatim>\<open>build01\<close> first, \<^verbatim>\<open>build01\<close> is synced.
\<close>

theorem reconcile_returns_at_current_cluster:
  "fst (reconcile (tagOnWorld [''api.ci'', ''app.ci''] ''sha256:aaa'' 5) exampleApi
          (inOrder [''api.ci'', ''app.ci'', ''build01'']) (threeClusterReconciler False)
          exampleRequest []) = Returned None
   \<and> callsTo ''build01''
        (snd (reconcile (tagOnWorld [''api.ci'', ''app.ci''] ''sha256:aaa'' 5) exampleApi
               (inOrder [''api.ci'', ''app.ci'', ''build01'']) (threeClusterReconciler False)
               exampleRequest []))
      = [GetImageStreamTag ''build01'' ''ci'' ''tool:latest'']
   \<and> callsTo ''build01''
        (snd (reconcile (tagOnWorld [''api.ci'', ''app.ci''] ''sha256:aaa'' 5) exampleApi
               (inOrder [''api.ci'', ''build01'', ''app.ci'']) (threeClusterReconciler False)
               exampleRequest []))
      = [GetImageStreamTag ''build01'' ''ci'' ''tool:latest'',
         GetNamespace ''build01'' ''ci'',
         CreateOrUpdateImageStream ''build01'' (imagestream exampleStream),
         GetImageStream ''build01'' ''ci'' ''tool'',
         CreateOrUpdateSecret ''build01'' (pullSecret (threeClusterReconciler False) ''ci''),
         CreateImageStreamImport ''build01''
           \<lparr>isi_Namespace = ''ci'', isi_Name = ''tool'', isi_Import = True,
            isi_From = \<lparr>or_Kind = ''DockerImage'', or_Namespace = [],
                        or_Name = ''registry.svc.ci.openshift.org/ci/tool@sha256:aaa''\<rparr>,
            isi_To = ''latest'', isi_ReferencePolicyLocal = True\<rparr>]"
  by code_simp

text \<open>
  Claim C9 says that in read-only mode the import is skipped while the ensure paths still
  run for every cluster that needs syncing. In the source the read-only test of lines 316
  to 318 ends with \<^verbatim>\<open>return nil\<close>. Here the tag is only on \<^verbatim>\<open>api.ci\<close>, so \<^verbatim>\<open>app.ci\<close> and
  \<^verbatim>\<open>build01\<close> both need syncing: the namespace, the stream and the pull secret are ensured
  on \<^verbatim>\<open>app.ci\<close>, then \<^verbatim>\<open>reconcile\<close> returns nil, and \<^verbatim>\<open>build01\<close> receives nothing but the read
  of the tag. That no import is sent in read-only mode holds for every input
  (\<open>reconcile_read_only_no_import\<close>).
\<close>

theorem reconcile_read_only_returns_at_first_cluster:
  "fst (reconcile (tagOnWorld [''api.ci''] ''sha256:aaa'' 5) exampleApi
          (inOrder [''api.ci'', ''app.ci'', ''build01'']) (threeClusterReconciler True)
          exampleRequest []) = Returned None
   \<and> callsTo ''app.ci''
        (snd (reconcile (tagOnWorld [''api.ci''] ''sha256:aaa'' 5) exampleApi
               (inOrder [''api.ci'', ''app.ci'', ''build01'']) (threeClusterReconciler True)
               exampleRequest []))
      = [GetImageStreamTag ''app.ci'' ''ci'' ''tool:latest'',
         GetNamespace ''app.ci'' ''ci'',
         CreateOrUpdateImageStream ''app.ci'' (imagestream exampleStream),
         GetImageStream ''app.ci'' ''ci'' ''tool'',
         CreateOrUpdateSecret ''app.ci'' (pullSecret (threeClusterReconciler True) ''ci'')]
   \<and> callsTo ''build01''
        (snd (reconcile (tagOnWorld [''api.ci''] ''sha256:aaa'' 5) exampleApi
               (inOrder [''api.ci'', ''app.ci'', ''build01'']) (threeClusterReconciler True)
               exampleRequest []))
      = [GetImageStreamTag ''build01'' ''ci'' ''tool:latest'']"
  by code_simp

end
